theory Spec2Isabelle
  imports Main "HOL-Library.Char_ord" "HOL-Library.List_Lexorder"
    "HOL-Library.Product_Lexorder"
begin

section \<open>ClawSuite operations scripts: a shallow embedding\<close>

text \<open>
  The scripts under \<open>scripts/ops\<close> are bash programs run with \<open>set -euo pipefail\<close>.
  Each shell function becomes a HOL function of the same name. What a function reads
  from the operating system (which tools are installed, what a socket listing shows,
  whether a signal can be delivered, what an HTTP request answers) is a field of an
  environment record; what it writes (lock, PID and state files, the journal, the
  backups) is a field of a state record that is passed in and returned. A return status
  is a natural number, as in the shell. External commands that are run are appended to
  a trace, so that "this probe was never attempted" is a statement about the trace.
  Log lines and terminal output are not modelled, except where a command substitution
  captures them.
\<close>

subsection \<open>The HealthState snapshot\<close>

datatype port_status = PS_listening | PS_not_listening | PS_unknown

datatype http_status = HS_healthy | HS_unhealthy | HS_unknown

datatype server_mode = Dev | Preview

datatype run_mode = M_dev | M_preview | M_stopped

definition mode_of :: "server_mode \<Rightarrow> run_mode" where
  "mode_of m = (case m of Dev \<Rightarrow> M_dev | Preview \<Rightarrow> M_preview)"

text \<open>The \<open>error\<close> strings the scripts write, with the port they interpolate.\<close>

datatype err_msg =
    Port_not_listening nat
  | Http_check_failed nat
  | Service_stopped
  | Failed_to_start_server

record health_state =
  timestamp :: string
  host :: string
  port :: nat
  port_status :: port_status
  http_status :: http_status
  healthy :: bool
  pid :: "string option"
  mode :: "run_mode option"
  error :: "err_msg option"

text \<open>
  A PID is kept as the shell keeps it: a string, empty when nothing was found. In the
  JSON the scripts write \<open>${pid:-null}\<close>, which is \<open>None\<close> here.
\<close>

definition pid_json :: "string \<Rightarrow> string option" where
  "pid_json p = (if p = [] then None else Some p)"

definition first_line :: "string list \<Rightarrow> string" where
  "first_line ls = (case ls of [] \<Rightarrow> [] | x # _ \<Rightarrow> x)"

text \<open>External commands, as they appear in the traces.\<close>

datatype tool_cmd =
    Cmd_ss | Cmd_netstat | Cmd_lsof | Cmd_nc | Cmd_dev_tcp
  | Cmd_curl | Cmd_wget | Cmd_lsof_t | Cmd_ss_p
  | Cmd_kill_term string | Cmd_kill_kill string
  | Cmd_npm_build | Cmd_npm_ci | Cmd_clean | Cmd_launch server_mode
  | Cmd_stop_sh | Cmd_start_sh | Cmd_health_endpoint
  | Cmd_watchdog_health | Cmd_watchdog_restart
  | Cmd_git_checkout string | Cmd_restore_backup string

subsection \<open>watchdog-health.sh\<close>

text \<open>
  The host as the health check sees it. The \<open>has_\<close> fields are the answers of
  \<open>command -v\<close>. \<open>ss_tln p\<close> says that the pipeline \<open>ss -tln | grep -q ":p "\<close>
  succeeds, \<open>netstat_tln\<close> likewise; \<open>lsof_listen p\<close> holds the PIDs that
  \<open>lsof -i :p -sTCP:LISTEN\<close> reports, one per line; \<open>nc_z\<close> and \<open>dev_tcp\<close> are
  the two connect probes; \<open>curl_http_code h p\<close> is \<open>None\<close> when curl exits non-zero
  and the HTTP status code otherwise; \<open>ss_tlnp_pid p\<close> is what \<open>grep -oP\<close> extracts
  from the first matching line of \<open>ss -tlnp\<close>, empty when there is none.
\<close>

record host_tools =
  has_ss :: bool
  has_netstat :: bool
  has_lsof :: bool
  has_nc :: bool
  has_timeout :: bool
  has_curl :: bool
  has_wget :: bool
  ss_tln :: "nat \<Rightarrow> bool"
  netstat_tln :: "nat \<Rightarrow> bool"
  lsof_listen :: "nat \<Rightarrow> string list"
  nc_z :: "string \<Rightarrow> nat \<Rightarrow> bool"
  dev_tcp :: "string \<Rightarrow> nat \<Rightarrow> bool"
  curl_http_code :: "string \<Rightarrow> nat \<Rightarrow> nat option"
  wget_spider :: "string \<Rightarrow> nat \<Rightarrow> bool"
  ss_tlnp_pid :: "nat \<Rightarrow> string"

definition status_of :: "bool \<Rightarrow> nat" where
  "status_of ok = (if ok then 0 else 1)"

text \<open>
  \<open>check_port_listening\<close>: the first tool that is installed decides; with none of the
  five the function prints an error and returns 2.
\<close>

definition check_port_listening :: "host_tools \<Rightarrow> string \<Rightarrow> nat \<Rightarrow> nat \<times> tool_cmd list" where
  "check_port_listening t h p =
     (if has_ss t then (status_of (ss_tln t p), [Cmd_ss])
      else if has_netstat t then (status_of (netstat_tln t p), [Cmd_netstat])
      else if has_lsof t then (status_of (lsof_listen t p \<noteq> []), [Cmd_lsof])
      else if has_nc t then (status_of (nc_z t h p), [Cmd_nc])
      else if has_timeout t then (status_of (dev_tcp t h p), [Cmd_dev_tcp])
      else (2, []))"

text \<open>
  The regular expression \<open>^(2[0-9][0-9]|3[0-9][0-9])$\<close> on the three digits that
  curl prints for \<open>%{http_code}\<close>.
\<close>

definition http_code_ok :: "nat \<Rightarrow> bool" where
  "http_code_ok c = (200 \<le> c \<and> c < 400)"

definition check_http_health :: "host_tools \<Rightarrow> string \<Rightarrow> nat \<Rightarrow> nat \<times> tool_cmd list" where
  "check_http_health t h p =
     (if has_curl t then
        (case curl_http_code t h p of
           None \<Rightarrow> (1, [Cmd_curl])
         | Some c \<Rightarrow> (status_of (http_code_ok c), [Cmd_curl]))
      else if has_wget t then (status_of (wget_spider t h p), [Cmd_wget])
      else (2, []))"

text \<open>\<open>find_server_process\<close>: the first PID of \<open>lsof -t\<close>, else the one \<open>ss -tlnp\<close> shows.\<close>

definition find_server_process :: "host_tools \<Rightarrow> nat \<Rightarrow> string \<times> tool_cmd list" where
  "find_server_process t p =
     (if has_lsof t then (first_line (lsof_listen t p), [Cmd_lsof_t])
      else if has_ss t then (ss_tlnp_pid t p, [Cmd_ss_p])
      else ([], []))"

record health_cfg =
  cfg_host :: string
  cfg_port :: nat
  cfg_update_state :: bool
  cfg_now :: string

record health_run =
  snapshot :: health_state
  exit_code :: nat
  hr_state_file :: "health_state option"
  probes :: "tool_cmd list"

text \<open>
  \<open>perform_health_check\<close>. The port test stands in an \<open>if\<close>, so every non-zero
  status of \<open>check_port_listening\<close>, 1 and 2 alike, takes the \<open>else\<close> branch. The
  HTTP test runs only when \<open>port_status\<close> is \<open>listening\<close>. The state file is
  overwritten when \<open>--state\<close> was given. The function is the script's last command,
  so its status is the exit code.
\<close>

definition perform_health_check ::
  "host_tools \<Rightarrow> health_cfg \<Rightarrow> health_state option \<Rightarrow> health_run" where
  "perform_health_check t c old =
     (let (rc_port, tr1) = check_port_listening t (cfg_host c) (cfg_port c);
          listening = (rc_port = 0);
          (found, tr2) = (if listening then find_server_process t (cfg_port c) else ([], []));
          (rc_http, tr3) = (if listening then check_http_health t (cfg_host c) (cfg_port c)
                            else (1, []));
          ok = (listening \<and> rc_http = 0);
          snap = \<lparr> timestamp = cfg_now c, host = cfg_host c, port = cfg_port c,
                   port_status = (if listening then PS_listening else PS_not_listening),
                   http_status = (if listening
                                  then (if rc_http = 0 then HS_healthy else HS_unhealthy)
                                  else HS_unknown),
                   healthy = ok,
                   pid = pid_json found,
                   mode = None,
                   error = (if listening
                            then (if rc_http = 0 then None
                                  else Some (Http_check_failed (cfg_port c)))
                            else Some (Port_not_listening (cfg_port c))) \<rparr>
      in \<lparr> snapshot = snap,
           exit_code = (if ok then 0 else 1),
           hr_state_file = (if cfg_update_state c then Some snap else old),
           probes = tr1 @ tr2 @ tr3 \<rparr>)"

subsection \<open>The process supervisor: shared state and observations\<close>

text \<open>A script run yields its exit code, the files it leaves and the commands it ran.\<close>

definition exit_of :: "nat \<times> 'f \<times> tool_cmd list \<Rightarrow> nat" where
  "exit_of r = fst r"

definition files_of :: "nat \<times> 'f \<times> tool_cmd list \<Rightarrow> 'f" where
  "files_of r = fst (snd r)"

definition trace_of :: "nat \<times> 'f \<times> tool_cmd list \<Rightarrow> tool_cmd list" where
  "trace_of r = snd (snd r)"

text \<open>
  The files under \<open>logs/\<close> that start.sh, stop.sh and watchdog-restart.sh share.
  A file is \<open>None\<close> when it does not exist and \<open>Some\<close> of its content otherwise.
  \<open>logs_dir\<close> says whether the directory itself exists: a redirection into a
  missing directory fails, and under \<open>set -e\<close> the script then exits with 1.
\<close>

record sup_files =
  logs_dir :: bool
  lock_file :: "string option"
  pid_file :: "string option"
  watchdog_pid :: "string option"
  state_file :: "health_state option"

text \<open>
  The socket table at one instant, as \<open>find_process_on_port\<close> can see it: whether lsof
  and ss are installed, the lines of \<open>lsof -t -i :p -sTCP:LISTEN\<close>, and the PID that
  \<open>grep -oP\<close> extracts from the first matching line of \<open>ss -tlnp\<close>.
\<close>

record sock_view =
  v_has_lsof :: bool
  v_has_ss :: bool
  v_lsof_t :: "nat \<Rightarrow> string list"
  v_ss_p :: "nat \<Rightarrow> string"

definition find_process_on_port :: "sock_view \<Rightarrow> nat \<Rightarrow> string \<times> tool_cmd list" where
  "find_process_on_port v p =
     (if v_has_lsof v then (first_line (v_lsof_t v p), [Cmd_lsof_t])
      else if v_has_ss v then (v_ss_p v p, [Cmd_ss_p])
      else ([], []))"

text \<open>
  What the operating system answers to one script run. \<open>self_pid\<close> is \<open>$$\<close>,
  \<open>now_ts\<close> the output of \<open>date\<close>, \<open>view0\<close> the socket table when the script first
  looks at the port. \<open>kill0 x\<close> says that \<open>kill -0 x\<close> succeeds when the script
  starts, \<open>kill0_later x\<close> that it succeeds after the port was reconciled.
  \<open>alive_after_term x i\<close> is the answer of the \<open>i\<close>-th \<open>kill -0 x\<close> after
  \<open>kill -TERM x\<close> (the polls of the loop are 0 to 9), and \<open>alive_after_kill x\<close> the
  answer of \<open>kill -0 x\<close> after \<open>kill -KILL x\<close>.
\<close>

record sup_env =
  self_pid :: string
  now_ts :: string
  view0 :: sock_view
  kill0 :: "string \<Rightarrow> bool"
  kill0_later :: "string \<Rightarrow> bool"
  alive_after_term :: "string \<Rightarrow> nat \<Rightarrow> bool"
  alive_after_kill :: "string \<Rightarrow> bool"

text \<open>
  The loop \<open>while attempts < max_attempts\<close> of the three kill functions: it returns
  at the first poll at which \<open>kill -0\<close> fails. The second argument is \<open>attempts\<close>, the
  third the number of iterations left.
\<close>

fun wait_for_exit :: "(nat \<Rightarrow> bool) \<Rightarrow> nat \<Rightarrow> nat \<Rightarrow> bool" where
  "wait_for_exit alive_at attempts 0 = False"
| "wait_for_exit alive_at attempts (Suc n) =
     (if \<not> alive_at attempts then True else wait_for_exit alive_at (Suc attempts) n)"

subsection \<open>stop.sh\<close>

record stop_cfg =
  stop_port :: nat
  stop_force :: bool

text \<open>\<open>kill_process\<close> of stop.sh: SIGKILL is sent only under \<open>--force\<close>.\<close>

definition kill_process :: "bool \<Rightarrow> sup_env \<Rightarrow> string \<Rightarrow> nat \<times> tool_cmd list" where
  "kill_process force e p =
     (if wait_for_exit (alive_after_term e p) 0 10 then (0, [Cmd_kill_term p])
      else if force then
        (if \<not> alive_after_kill e p then (0, [Cmd_kill_term p, Cmd_kill_kill p])
         else (1, [Cmd_kill_term p, Cmd_kill_kill p]))
      else (1, [Cmd_kill_term p]))"

definition stop_watchdog :: "sup_env \<Rightarrow> sup_files \<Rightarrow> sup_files \<times> tool_cmd list" where
  "stop_watchdog e f =
     (case watchdog_pid f of
        None \<Rightarrow> (f, [])
      | Some wpid \<Rightarrow>
          (f\<lparr>watchdog_pid := None\<rparr>,
           if wpid \<noteq> [] \<and> kill0 e wpid then [Cmd_kill_term wpid] else []))"

definition stopped_snapshot :: "sup_env \<Rightarrow> nat \<Rightarrow> health_state" where
  "stopped_snapshot e p =
     \<lparr> timestamp = now_ts e, host = ''localhost'', port = p,
       port_status = PS_not_listening, http_status = HS_unknown, healthy = False,
       pid = None, mode = Some M_stopped, error = Some Service_stopped \<rparr>"

text \<open>
  The main flow of stop.sh, after the arguments are parsed. The result is the exit
  code, the files and the commands run. A failing \<open>kill_process\<close> exits with 1 before
  any file is touched. The state file is written by \<open>cat > "${STATE_FILE}"\<close>; stop.sh
  does not create the directory, so without it the redirection fails and the script
  exits with 1.
\<close>

definition stop_main :: "stop_cfg \<Rightarrow> sup_env \<Rightarrow> sup_files \<Rightarrow> nat \<times> sup_files \<times> tool_cmd list" where
  "stop_main c e f =
     (let (f1, tr1) = stop_watchdog e f;
          (p, tr2) = find_process_on_port (view0 e) (stop_port c);
          (rc, tr3) = (if p = [] then (0, []) else kill_process (stop_force c) e p);
          f2 = f1\<lparr>pid_file := None, lock_file := None\<rparr>
      in if rc \<noteq> 0 then (1, f1, tr1 @ tr2 @ tr3)
         else if \<not> logs_dir f2 then (1, f2, tr1 @ tr2 @ tr3)
         else (0, f2\<lparr>state_file := Some (stopped_snapshot e (stop_port c))\<rparr>,
               tr1 @ tr2 @ tr3))"

subsection \<open>start.sh\<close>

record start_cfg =
  st_port :: nat
  st_host :: string
  st_mode :: server_mode
  st_build :: bool
  st_clean :: bool
  st_force :: bool

text \<open>
  What the launched server does, as the polling loops observe it. \<open>spawn_pid\<close> is
  \<open>$!\<close>. At poll \<open>i\<close> (counted from 1) \<open>poll_view i\<close> is the socket table,
  \<open>poll_curl i\<close> the HTTP status code curl prints (\<open>None\<close> is curl's 000 on a failed
  connection) and \<open>poll_spawn_alive i\<close> the answer of \<open>kill -0 $start_pid\<close>.
  \<open>spawn_alive_at_timeout\<close> is that answer once start.sh has given up waiting.
\<close>

record launch_env =
  l_has_curl :: bool
  build_ok :: bool
  spawn_pid :: string
  poll_view :: "nat \<Rightarrow> sock_view"
  poll_curl :: "nat \<Rightarrow> nat option"
  poll_spawn_alive :: "nat \<Rightarrow> bool"
  spawn_alive_at_timeout :: bool

text \<open>
  \<open>acquire_lock\<close>: status 3 when the lock file names a PID to which a signal can be
  delivered; otherwise the file is removed if present and rewritten with \<open>$$\<close>.
\<close>

definition acquire_lock :: "sup_env \<Rightarrow> sup_files \<Rightarrow> nat \<times> sup_files" where
  "acquire_lock e f =
     (case lock_file f of
        Some lock_pid \<Rightarrow>
          (if lock_pid \<noteq> [] \<and> kill0 e lock_pid then (3, f\<lparr>logs_dir := True\<rparr>)
           else (0, f\<lparr>logs_dir := True, lock_file := Some (self_pid e)\<rparr>))
      | None \<Rightarrow> (0, f\<lparr>logs_dir := True, lock_file := Some (self_pid e)\<rparr>))"

definition release_lock :: "sup_files \<Rightarrow> sup_files" where
  "release_lock f = f\<lparr>lock_file := None\<rparr>"

text \<open>
  \<open>kill_process_gracefully\<close> of start.sh. After the ten polls the function asks
  \<open>kill -0\<close> once more (observation 10) before it sends SIGKILL, and once more at
  the end.
\<close>

definition kill_process_gracefully :: "sup_env \<Rightarrow> string \<Rightarrow> nat \<times> tool_cmd list" where
  "kill_process_gracefully e p =
     (if wait_for_exit (alive_after_term e p) 0 10 then (0, [Cmd_kill_term p])
      else if alive_after_term e p 10 then
        (if alive_after_kill e p then (1, [Cmd_kill_term p, Cmd_kill_kill p])
         else (0, [Cmd_kill_term p, Cmd_kill_kill p]))
      else (if alive_after_term e p 11 then (1, [Cmd_kill_term p])
            else (0, [Cmd_kill_term p])))"

definition stop_existing ::
  "start_cfg \<Rightarrow> sup_env \<Rightarrow> sup_files \<Rightarrow> nat \<times> sup_files \<times> tool_cmd list" where
  "stop_existing c e f =
     (let (existing_pid, tr1) = find_process_on_port (view0 e) (st_port c);
          (rc, tr2) = (if existing_pid = [] then (0, [])
                       else if st_force c then kill_process_gracefully e existing_pid
                       else (1, []));
          f1 = (case pid_file f of
                  Some file_pid \<Rightarrow>
                    (if file_pid \<noteq> [] \<and> \<not> kill0_later e file_pid
                     then f\<lparr>pid_file := None\<rparr> else f)
                | None \<Rightarrow> f)
      in if rc \<noteq> 0 then (1, f, tr1 @ tr2) else (0, f1, tr1 @ tr2))"

definition run_build :: "start_cfg \<Rightarrow> launch_env \<Rightarrow> nat \<times> tool_cmd list" where
  "run_build c l =
     (if st_mode c \<noteq> Preview \<or> \<not> st_build c then (0, [])
      else if build_ok l then (0, [Cmd_npm_build]) else (1, [Cmd_npm_build]))"

text \<open>
  \<open>wait_for_healthy\<close>: up to \<open>HEALTH_RETRIES = 6\<close> polls. A poll succeeds when a PID
  is found on the port and, if curl is installed, curl prints a 2xx or 3xx code; without
  curl the PID alone is enough. The result is the PID echoed, or \<open>None\<close> for status 1.
\<close>

fun wait_for_healthy_loop ::
  "launch_env \<Rightarrow> nat \<Rightarrow> nat \<Rightarrow> nat \<Rightarrow> string option \<times> tool_cmd list" where
  "wait_for_healthy_loop l p i 0 = (None, [])"
| "wait_for_healthy_loop l p i (Suc retries) =
     (let (found, tr) = find_process_on_port (poll_view l i) p;
          (later, tr_later) = wait_for_healthy_loop l p (Suc i) retries
      in if found \<noteq> [] then
           (if l_has_curl l then
              (if (case poll_curl l i of None \<Rightarrow> False | Some c \<Rightarrow> http_code_ok c)
               then (Some found, tr @ [Cmd_curl])
               else (later, tr @ [Cmd_curl] @ tr_later))
            else (Some found, tr))
         else (later, tr @ tr_later))"

definition wait_for_healthy :: "launch_env \<Rightarrow> nat \<Rightarrow> string option \<times> tool_cmd list" where
  "wait_for_healthy l p = wait_for_healthy_loop l p 1 6"

definition started_snapshot ::
  "string \<Rightarrow> string \<Rightarrow> nat \<Rightarrow> server_mode \<Rightarrow> string \<Rightarrow> health_state" where
  "started_snapshot ts h p m found =
     \<lparr> timestamp = ts, host = h, port = p,
       port_status = PS_listening, http_status = HS_healthy, healthy = True,
       pid = Some found, mode = Some (mode_of m), error = None \<rparr>"

text \<open>
  \<open>start_server\<close> of start.sh: launch, wait, and on success write the PID file and
  the state file. The snapshot is the same literal text whether or not curl was run.
\<close>

definition start_server ::
  "start_cfg \<Rightarrow> sup_env \<Rightarrow> launch_env \<Rightarrow> sup_files \<Rightarrow> nat \<times> sup_files \<times> tool_cmd list" where
  "start_server c e l f =
     (case wait_for_healthy l (st_port c) of
        (None, tr) \<Rightarrow>
          (1, f, [Cmd_launch (st_mode c)] @ tr @
                 (if spawn_alive_at_timeout l then [Cmd_kill_term (spawn_pid l)] else []))
      | (Some healthy_pid, tr) \<Rightarrow>
          (0, f\<lparr>pid_file := Some healthy_pid,
                state_file := Some (started_snapshot (now_ts e) (st_host c) (st_port c)
                                      (st_mode c) healthy_pid)\<rparr>,
           [Cmd_launch (st_mode c)] @ tr))"

text \<open>
  \<open>main\<close> of start.sh. Its first command writes a log line through
  \<open>tee -a "${LOG_FILE}"\<close>, which fails when the logs directory is missing, and the
  script exits with 1. A status 3 of \<open>acquire_lock\<close> exits with 3 before the EXIT trap
  is installed; every later exit runs \<open>release_lock\<close>. \<open>start_main_locked\<close> is the
  part of \<open>main\<close> that follows the acquisition of the lock.
\<close>

definition start_main_locked ::
  "start_cfg \<Rightarrow> sup_env \<Rightarrow> launch_env \<Rightarrow> sup_files \<Rightarrow> nat \<times> sup_files \<times> tool_cmd list" where
  "start_main_locked c e l f0 =
     (case stop_existing c e f0 of
        (Suc _, f1, tr1) \<Rightarrow> (1, release_lock f1, tr1)
      | (0, f1, tr1) \<Rightarrow>
          (let tr2 = (if st_clean c then [Cmd_clean] else []) in
           case run_build c l of
             (Suc _, tr3) \<Rightarrow> (1, release_lock f1, tr1 @ tr2 @ tr3)
           | (0, tr3) \<Rightarrow>
               (case start_server c e l f1 of
                  (Suc _, f2, tr4) \<Rightarrow> (1, release_lock f2, tr1 @ tr2 @ tr3 @ tr4)
                | (0, f2, tr4) \<Rightarrow> (0, release_lock f2, tr1 @ tr2 @ tr3 @ tr4))))"

definition start_main ::
  "start_cfg \<Rightarrow> sup_env \<Rightarrow> launch_env \<Rightarrow> sup_files \<Rightarrow> nat \<times> sup_files \<times> tool_cmd list" where
  "start_main c e l f =
     (if \<not> logs_dir f then (1, f, [])
      else
        (case acquire_lock e f of
           (Suc _, f0) \<Rightarrow> (3, f0, [])
         | (0, f0) \<Rightarrow> start_main_locked c e l f0))"

subsection \<open>watchdog-restart.sh\<close>

record restart_cfg =
  rs_port :: nat
  rs_mode :: server_mode
  rs_dry_run :: bool

text \<open>\<open>kill_process\<close> of watchdog-restart.sh has the body of \<open>kill_process_gracefully\<close>.\<close>

definition restart_kill_process :: "sup_env \<Rightarrow> string \<Rightarrow> nat \<times> tool_cmd list" where
  "restart_kill_process e p =
     (if wait_for_exit (alive_after_term e p) 0 10 then (0, [Cmd_kill_term p])
      else if alive_after_term e p 10 then
        (if alive_after_kill e p then (1, [Cmd_kill_term p, Cmd_kill_kill p])
         else (0, [Cmd_kill_term p, Cmd_kill_kill p]))
      else (if alive_after_term e p 11 then (1, [Cmd_kill_term p])
            else (0, [Cmd_kill_term p])))"

text \<open>
  The loop \<open>while waited < WAIT_AFTER_START\<close> (ten polls): it fails when the launched
  process is gone and succeeds at the first poll that finds any PID on the port. No
  HTTP request is made.
\<close>

fun restart_wait_loop ::
  "launch_env \<Rightarrow> nat \<Rightarrow> nat \<Rightarrow> nat \<Rightarrow> string option \<times> tool_cmd list" where
  "restart_wait_loop l p i 0 = (None, [])"
| "restart_wait_loop l p i (Suc n) =
     (if \<not> poll_spawn_alive l i then (None, [])
      else
        (let (listening_pid, tr) = find_process_on_port (poll_view l i) p in
         if listening_pid \<noteq> [] then (Some listening_pid, tr)
         else (let (res, tr') = restart_wait_loop l p (Suc i) n in (res, tr @ tr'))))"

definition restart_start_server ::
  "restart_cfg \<Rightarrow> sup_env \<Rightarrow> launch_env \<Rightarrow> sup_files \<Rightarrow> nat \<times> sup_files \<times> tool_cmd list" where
  "restart_start_server c e l f =
     (if rs_mode c = Preview \<and> \<not> rs_dry_run c \<and> \<not> build_ok l then (1, f, [Cmd_npm_build])
      else
        (let tr0 = (if rs_mode c = Preview \<and> \<not> rs_dry_run c then [Cmd_npm_build] else []) in
         if rs_dry_run c then (0, f, tr0)
         else
           (case restart_wait_loop l (rs_port c) 1 10 of
              (None, tr) \<Rightarrow> (1, f, tr0 @ [Cmd_launch (rs_mode c)] @ tr)
            | (Some listening_pid, tr) \<Rightarrow>
                (0, f\<lparr>state_file := Some (started_snapshot (now_ts e) ''localhost'' (rs_port c)
                                            (rs_mode c) listening_pid)\<rparr>,
                 tr0 @ [Cmd_launch (rs_mode c)] @ tr))))"

definition restart_failed_snapshot :: "sup_env \<Rightarrow> nat \<Rightarrow> server_mode \<Rightarrow> health_state" where
  "restart_failed_snapshot e p m =
     \<lparr> timestamp = now_ts e, host = ''localhost'', port = p,
       port_status = PS_not_listening, http_status = HS_unhealthy, healthy = False,
       pid = None, mode = Some (mode_of m), error = Some Failed_to_start_server \<rparr>"

text \<open>\<open>main\<close> of watchdog-restart.sh; the script has created the state directory before.\<close>

definition restart_main ::
  "restart_cfg \<Rightarrow> sup_env \<Rightarrow> launch_env \<Rightarrow> sup_files \<Rightarrow> nat \<times> sup_files \<times> tool_cmd list" where
  "restart_main c e l f =
     (let f0 = f\<lparr>logs_dir := True\<rparr>;
          (current_pid, tr1) = find_process_on_port (view0 e) (rs_port c)
      in if rs_dry_run c then (0, f0, tr1)
         else
           (let (rc, tr2) = (if current_pid = [] then (0, [])
                             else restart_kill_process e current_pid)
            in if rc \<noteq> 0 then (1, f0, tr1 @ tr2)
               else
                 (case restart_start_server c e l f0 of
                    (Suc _, f1, tr3) \<Rightarrow>
                      (1, f1\<lparr>state_file := Some (restart_failed_snapshot e (rs_port c) (rs_mode c))\<rparr>,
                       tr1 @ tr2 @ tr3)
                  | (0, f1, tr3) \<Rightarrow> (0, f1, tr1 @ tr2 @ tr3))))"

subsection \<open>watchdog-daemon.sh\<close>

text \<open>
  The arithmetic command \<open>((x++))\<close> stores \<open>x + 1\<close> and has status 1 when the
  value of the expression, the old \<open>x\<close>, is 0, and status 0 otherwise.
\<close>

definition post_increment :: "int \<Rightarrow> int \<times> nat" where
  "post_increment x = (x + 1, if x = 0 then 1 else 0)"

record wd_state =
  consecutive_failures :: int
  last_failure_time :: int

record wd_obs =
  check_healthy :: bool
  obs_now :: int
  restart_ok :: bool

datatype 'a shell = Continue 'a | Exit nat

definition MAX_FAILURES :: int where
  "MAX_FAILURES = 3"

definition FAILURE_RESET_AFTER :: int where
  "FAILURE_RESET_AFTER = 300"

text \<open>
  One pass through the body of \<open>while true\<close> in \<open>daemon_loop\<close>. \<open>check_healthy\<close> is
  the status of \<open>run_health_check\<close>, \<open>obs_now\<close> the output of \<open>date +%s\<close> and
  \<open>restart_ok\<close> the status of \<open>run_restart\<close>, should it be called. The script runs
  under \<open>set -euo pipefail\<close> and \<open>daemon_loop\<close> is started as \<open>daemon_loop &\<close>; the
  command \<open>((consecutive_failures++))\<close> stands in the \<open>else\<close> branch, where a
  non-zero status is not exempt, so the shell exits with that status.
\<close>

definition daemon_iteration :: "wd_obs \<Rightarrow> wd_state \<Rightarrow> wd_state shell \<times> tool_cmd list" where
  "daemon_iteration ob s =
     (if check_healthy ob
      then (Continue (s\<lparr>consecutive_failures := 0\<rparr>), [Cmd_watchdog_health])
      else
        (let cf1 = (if obs_now ob - last_failure_time s > FAILURE_RESET_AFTER
                    then 0 else consecutive_failures s);
             (cf2, st) = post_increment cf1;
             s2 = \<lparr> consecutive_failures = cf2, last_failure_time = obs_now ob \<rparr>
         in if st \<noteq> 0 then (Exit st, [Cmd_watchdog_health])
            else if cf2 \<ge> MAX_FAILURES then
              (if restart_ok ob
               then (Continue (s2\<lparr>consecutive_failures := 0\<rparr>),
                     [Cmd_watchdog_health, Cmd_watchdog_restart])
               else (Continue s2, [Cmd_watchdog_health, Cmd_watchdog_restart]))
            else (Continue s2, [Cmd_watchdog_health])))"

text \<open>
  The loop over the observations of successive cycles. The loop of the script has no
  exit of its own; a finite list of observations gives the state after that many
  cycles, or the exit status if the shell exited on the way.
\<close>

fun daemon_loop_from :: "wd_obs list \<Rightarrow> wd_state \<Rightarrow> wd_state shell \<times> tool_cmd list" where
  "daemon_loop_from [] s = (Continue s, [])"
| "daemon_loop_from (ob # obs) s =
     (case daemon_iteration ob s of
        (Exit n, tr) \<Rightarrow> (Exit n, tr)
      | (Continue s', tr) \<Rightarrow>
          (let (r, tr') = daemon_loop_from obs s' in (r, tr @ tr')))"

definition daemon_loop :: "wd_obs list \<Rightarrow> wd_state shell \<times> tool_cmd list" where
  "daemon_loop obs = daemon_loop_from obs \<lparr> consecutive_failures = 0, last_failure_time = 0 \<rparr>"

subsection \<open>deploy-with-rollback.sh: journal, current state, backups\<close>

datatype action =
    A_deploy_start | A_backup_created | A_build_start | A_build_complete
  | A_server_start | A_health_check | A_deploy_complete | A_rollback | A_manual_rollback

datatype tx_status = T_started | T_success | T_failed

text \<open>
  The journal is a text file that is searched line by line. \<open>journal_append\<close> writes
  one JSON object; when the \<open>details\<close> text spans several lines, the object is spread
  over as many physical lines. \<open>JLine tx a st intact\<close> is a physical line that holds
  the fields \<open>tx_id\<close>, \<open>action\<close> and \<open>status\<close>; \<open>intact\<close> says that the whole
  object is on this line, so that jq can parse it. \<open>JFragment\<close> is a line that holds
  the rest of a spread object.
\<close>

datatype jline = JLine string action tx_status bool | JFragment

datatype cstatus = CS_initialized | CS_deploying | CS_deployed | CS_rolled_back

record cstate =
  cs_status :: cstatus
  cs_timestamp :: string
  cs_tx :: "string option"
  cs_version :: "string option"

text \<open>
  A backup directory: its modification time and the \<open>dist\<close> tree it holds (\<open>None\<close>
  when there was no \<open>dist\<close> to copy). The content of a tree is an opaque number.
\<close>

record backup =
  b_mtime :: nat
  b_dist :: "nat option"

record dworld =
  journal_dir :: bool
  journal_file :: "jline list option"
  current_state :: "cstate option"
  deploy_lock :: "string option"
  backups :: "(string \<times> backup) list"
  live_dist :: "nat option"

text \<open>
  What one run of the script observes: \<open>$$\<close>, the output of \<open>generate_tx_id\<close>, the
  clock, the file system time for a new backup, \<open>kill -0\<close>, the outcome of
  \<open>npm run build\<close> and the tree it leaves, the status of start.sh in the deployment
  and in the rollback, the answers of the health endpoint, and the version in
  package.json. The script calls \<open>start.sh --force\<close> with no other option, so
  start.sh runs in its default mode \<open>preview\<close> with \<open>BUILD=true\<close>: its \<open>run_build\<close>
  runs \<open>npm run build\<close>, which rewrites \<open>dist\<close>, before the server is launched.
  \<open>d_start_dist t\<close> is the \<open>dist\<close> tree that the run of start.sh in the deployment
  leaves when it found the tree \<open>t\<close> (it is \<open>t\<close> itself when start.sh gave up before
  the build), and \<open>d_restart_dist\<close> is the same for the run inside a rollback.
\<close>

record denv =
  d_self_pid :: string
  d_tx_id :: string
  d_now :: string
  d_mtime :: nat
  d_kill0 :: "string \<Rightarrow> bool"
  d_build_ok :: bool
  d_built_dist :: "nat option"
  d_start_ok :: bool
  d_start_dist :: "nat option \<Rightarrow> nat option"
  d_restart_ok :: bool
  d_restart_dist :: "nat option \<Rightarrow> nat option"
  d_live_ok :: bool
  d_ready :: "nat \<Rightarrow> bool"
  d_version :: string

definition init_journal :: "denv \<Rightarrow> dworld \<Rightarrow> dworld" where
  "init_journal e w =
     w\<lparr> journal_dir := True,
        journal_file := (case journal_file w of None \<Rightarrow> Some [] | Some ls \<Rightarrow> Some ls),
        current_state := (case current_state w of
                            None \<Rightarrow> Some \<lparr> cs_status = CS_initialized, cs_timestamp = d_now e,
                                           cs_tx = None, cs_version = None \<rparr>
                          | Some c \<Rightarrow> Some c) \<rparr>"

text \<open>
  \<open>journal_append tx a st n\<close>, where \<open>n\<close> is the number of lines of the
  \<open>details\<close> argument: the first physical line carries the fields, and is a whole
  object only if \<open>n\<close> is 1.
\<close>

definition journal_append ::
  "denv \<Rightarrow> string \<Rightarrow> action \<Rightarrow> tx_status \<Rightarrow> nat \<Rightarrow> dworld \<Rightarrow> dworld" where
  "journal_append e tx a st n w =
     (let w1 = init_journal e w;
          old = (case journal_file w1 of None \<Rightarrow> [] | Some ls \<Rightarrow> ls)
      in w1\<lparr>journal_file := Some (old @ JLine tx a st (n \<le> 1) # replicate (n - 1) JFragment)\<rparr>)"

definition update_current_state ::
  "denv \<Rightarrow> cstatus \<Rightarrow> string \<Rightarrow> string \<Rightarrow> dworld \<Rightarrow> dworld" where
  "update_current_state e st tx ver w =
     w\<lparr>current_state := Some \<lparr> cs_status = st, cs_timestamp = d_now e,
                                cs_tx = Some tx, cs_version = Some ver \<rparr>\<rparr>"

text \<open>
  \<open>get_last_successful_tx\<close>: \<open>tac | grep -m1 '"status":"success"' | jq -r '.tx_id'\<close>,
  with \<open>|| echo ""\<close> for a pipeline that fails. grep selects the last physical line
  whose status field is \<open>success\<close>; jq prints its \<open>tx_id\<close> if the line is a whole
  object and fails otherwise, which leaves the empty string.
\<close>

fun is_success_line :: "jline \<Rightarrow> bool" where
  "is_success_line (JLine tx a st intact) = (st = T_success)"
| "is_success_line JFragment = False"

definition get_last_successful_tx :: "dworld \<Rightarrow> string" where
  "get_last_successful_tx w =
     (case journal_file w of
        None \<Rightarrow> []
      | Some ls \<Rightarrow>
          (case find is_success_line (rev ls) of
             None \<Rightarrow> []
           | Some JFragment \<Rightarrow> []
           | Some (JLine tx a st intact) \<Rightarrow> (if intact then tx else [])))"

text \<open>
  \<open>create_backup\<close>. The function is called as \<open>backup_path=$(create_backup ...)\<close>,
  so all it prints is captured: the backup path, preceded by the line of
  \<open>info "Backed up dist/ ..."\<close> when there is a \<open>dist\<close> directory. The second
  component is that captured text, line by line. An existing directory of the same
  name is taken over.
\<close>

definition create_backup :: "denv \<Rightarrow> string \<Rightarrow> dworld \<Rightarrow> dworld \<times> string list" where
  "create_backup e tx w =
     (w\<lparr>backups := (tx, \<lparr> b_mtime = d_mtime e, b_dist = live_dist w \<rparr>)
                      # filter (\<lambda>x. fst x \<noteq> tx) (backups w)\<rparr>,
      (if live_dist w \<noteq> None then [''[INFO] Backed up dist/ to backups/'' @ tx @ ''/dist'']
       else []) @ [''backups/'' @ tx])"

text \<open>\<open>restore_backup\<close>: status 1 when the directory is missing; \<open>dist\<close> is replaced only
  when the backup holds one.\<close>

definition restore_backup :: "string \<Rightarrow> dworld \<Rightarrow> nat \<times> dworld" where
  "restore_backup tx w =
     (case map_of (backups w) tx of
        None \<Rightarrow> (1, w)
      | Some b \<Rightarrow> (0, (case b_dist b of None \<Rightarrow> w | Some d \<Rightarrow> w\<lparr>live_dist := Some d\<rparr>)))"

text \<open>
  \<open>check_health\<close>: one request to \<open>/health/live\<close> (the endpoint is started when it
  does not answer), then up to \<open>HEALTH_RETRIES = 6\<close> requests to \<open>/health/ready\<close>.
\<close>

fun ready_loop :: "(nat \<Rightarrow> bool) \<Rightarrow> nat \<Rightarrow> nat \<Rightarrow> bool \<times> tool_cmd list" where
  "ready_loop ready i 0 = (False, [])"
| "ready_loop ready i (Suc n) =
     (if ready i then (True, [Cmd_curl])
      else (let (r, tr) = ready_loop ready (Suc i) n in (r, Cmd_curl # tr)))"

definition check_health :: "denv \<Rightarrow> bool \<times> tool_cmd list" where
  "check_health e =
     (let (r, tr) = ready_loop (d_ready e) 1 6
      in (r, (if d_live_ok e then [Cmd_curl] else [Cmd_curl, Cmd_health_endpoint]) @ tr))"

text \<open>
  The listing \<open>ls -t\<close> of the backup directory: newest first, entries of equal time
  by name; \<open>backup_key\<close> is the sort key that gives this order. \<open>tail -n +6\<close>
  passes on everything after the fifth line, and the loop removes each directory it
  reads.
\<close>

definition backup_key :: "string \<times> backup \<Rightarrow> int \<times> string" where
  "backup_key x = (- int (b_mtime (snd x)), fst x)"

definition ls_t :: "(string \<times> backup) list \<Rightarrow> string list" where
  "ls_t bs = map fst (sort_key backup_key bs)"

definition prune_backups :: "(string \<times> backup) list \<Rightarrow> (string \<times> backup) list" where
  "prune_backups bs = filter (\<lambda>x. fst x \<notin> set (drop 5 (ls_t bs))) bs"

subsection \<open>deploy-with-rollback.sh: the commands\<close>

text \<open>
  \<open>cmd_rollback_internal\<close>: look up the last successful transaction, stop, restore
  its backup, start again, and record the outcome under the current transaction.
  The run of start.sh that follows the restore builds again, so the \<open>dist\<close> tree
  afterwards is the one start.sh leaves, not the one that was restored.
\<close>

definition cmd_rollback_internal ::
  "denv \<Rightarrow> string \<Rightarrow> dworld \<Rightarrow> nat \<times> dworld \<times> tool_cmd list" where
  "cmd_rollback_internal e current_tx w =
     (let last_good = get_last_successful_tx w in
      if last_good = [] then (1, journal_append e current_tx A_rollback T_failed 1 w, [])
      else
        (case restore_backup last_good w of
           (Suc _, w1) \<Rightarrow>
             (1, journal_append e current_tx A_rollback T_failed 1 w1,
              [Cmd_stop_sh, Cmd_restore_backup last_good])
         | (0, w1) \<Rightarrow>
             (let w2 = w1\<lparr>live_dist := d_restart_dist e (live_dist w1)\<rparr> in
              if d_restart_ok e then
                (0, update_current_state e CS_rolled_back last_good (d_version e)
                      (journal_append e current_tx A_rollback T_success 1 w2),
                 [Cmd_stop_sh, Cmd_restore_backup last_good, Cmd_start_sh])
              else
                (1, journal_append e current_tx A_rollback T_failed 1 w2,
                 [Cmd_stop_sh, Cmd_restore_backup last_good, Cmd_start_sh]))))"

record deploy_cfg =
  pre_build :: bool
  health_check :: bool

text \<open>The test at the head of \<open>cmd_deploy\<close>: the lock file names a live process.\<close>

definition deploy_lock_held :: "denv \<Rightarrow> dworld \<Rightarrow> bool" where
  "deploy_lock_held e w =
     (case deploy_lock w of None \<Rightarrow> False | Some lock_pid \<Rightarrow> lock_pid \<noteq> [] \<and> d_kill0 e lock_pid)"

text \<open>
  The phases of \<open>cmd_deploy\<close> once the lock is written. A failed rollback returns 1
  and ends the script at once under \<open>set -e\<close>; a rollback that succeeds is followed by
  \<open>return 1\<close>: both ways the exit code is 1. In \<open>deploy_start_phase\<close> the run of
  start.sh comes between the two \<open>server_start\<close> lines of the journal and leaves its
  own \<open>dist\<close> tree, whether it succeeds or not.
\<close>

definition deploy_health_phase ::
  "deploy_cfg \<Rightarrow> denv \<Rightarrow> dworld \<Rightarrow> nat \<times> dworld \<times> tool_cmd list" where
  "deploy_health_phase c e w =
     (let (ok, tr) = (if health_check c then check_health e else (True, [])) in
      if \<not> ok then
        (let (rc, w1, tr1) = cmd_rollback_internal e (d_tx_id e)
                               (journal_append e (d_tx_id e) A_health_check T_failed 1 w)
         in (1, w1, tr @ tr1))
      else
        (let w1 = (if health_check c
                   then journal_append e (d_tx_id e) A_health_check T_success 1 w else w);
             w2 = update_current_state e CS_deployed (d_tx_id e) (d_version e)
                    (journal_append e (d_tx_id e) A_deploy_complete T_success 1 w1)
         in (0, w2\<lparr>backups := prune_backups (backups w2)\<rparr>, tr)))"

definition deploy_start_phase ::
  "deploy_cfg \<Rightarrow> denv \<Rightarrow> dworld \<Rightarrow> nat \<times> dworld \<times> tool_cmd list" where
  "deploy_start_phase c e w =
     (let w1 = (journal_append e (d_tx_id e) A_server_start T_started 1 w)
                 \<lparr>live_dist := d_start_dist e (live_dist w)\<rparr> in
      if d_start_ok e then
        (let (rc, w2, tr) = deploy_health_phase c e
                              (journal_append e (d_tx_id e) A_server_start T_success 1 w1)
         in (rc, w2, [Cmd_stop_sh, Cmd_start_sh] @ tr))
      else
        (let (rc, w2, tr) = cmd_rollback_internal e (d_tx_id e)
                              (journal_append e (d_tx_id e) A_server_start T_failed 1 w1)
         in (1, w2, [Cmd_stop_sh, Cmd_start_sh] @ tr)))"

definition deploy_build_phase ::
  "deploy_cfg \<Rightarrow> denv \<Rightarrow> dworld \<Rightarrow> nat \<times> dworld \<times> tool_cmd list" where
  "deploy_build_phase c e w =
     (if pre_build c then
        (let w1 = journal_append e (d_tx_id e) A_build_start T_started 1 w in
         if d_build_ok e then
           (let (rc, w2, tr) = deploy_start_phase c e
                                 ((journal_append e (d_tx_id e) A_build_complete T_success 1 w1)
                                    \<lparr>live_dist := d_built_dist e\<rparr>)
            in (rc, w2, Cmd_npm_build # tr))
         else
           (let (rc, w2, tr) = cmd_rollback_internal e (d_tx_id e)
                                 ((journal_append e (d_tx_id e) A_build_complete T_failed 1 w1)
                                    \<lparr>live_dist := d_built_dist e\<rparr>)
            in (1, w2, Cmd_npm_build # tr)))
      else deploy_start_phase c e w)"

definition deploy_backup_phase :: "denv \<Rightarrow> dworld \<Rightarrow> dworld" where
  "deploy_backup_phase e w =
     (let w1 = update_current_state e CS_deploying (d_tx_id e) ''unknown''
                 (journal_append e (d_tx_id e) A_deploy_start T_started 1 (init_journal e w));
          (w2, backup_path) = create_backup e (d_tx_id e) w1
      in journal_append e (d_tx_id e) A_backup_created T_success (length backup_path) w2)"

text \<open>
  \<open>cmd_deploy\<close>, with the EXIT trap it installs. A held lock returns 1 before anything
  is written. The lock file is written by \<open>echo $$ > "${LOCK_FILE}"\<close> before
  \<open>init_journal\<close> creates the journal directory, so without the directory the script
  exits with 1 there. After that the trap removes the lock file whatever the outcome.
\<close>

definition cmd_deploy :: "deploy_cfg \<Rightarrow> denv \<Rightarrow> dworld \<Rightarrow> nat \<times> dworld \<times> tool_cmd list" where
  "cmd_deploy c e w =
     (if deploy_lock_held e w then (1, w, [])
      else if \<not> journal_dir w then (1, w, [])
      else
        (let (rc, w1, tr) = deploy_build_phase c e
                              (deploy_backup_phase e (w\<lparr>deploy_lock := Some (d_self_pid e)\<rparr>))
         in (rc, w1\<lparr>deploy_lock := None\<rparr>, tr)))"

text \<open>
  Deploy after deploy, each run in the world the previous one left: \<open>Some\<close> of the
  last world when every run exits with 0, \<open>None\<close> as soon as one fails.
\<close>

fun deploy_all :: "deploy_cfg \<Rightarrow> denv list \<Rightarrow> dworld \<Rightarrow> dworld option" where
  "deploy_all c [] w = Some w"
| "deploy_all c (e # es) w =
     (case cmd_deploy c e w of
        (0, w', tr) \<Rightarrow> deploy_all c es w'
      | (Suc _, w', tr) \<Rightarrow> None)"

record manual_cfg =
  target_tx :: string
  mr_force :: bool

text \<open>
  \<open>cmd_rollback\<close>, the \<open>rollback\<close> command of the script. It does not read or write
  the lock file. As in the internal rollback, start.sh builds again after the restore.
\<close>

definition cmd_rollback :: "manual_cfg \<Rightarrow> denv \<Rightarrow> dworld \<Rightarrow> nat \<times> dworld \<times> tool_cmd list" where
  "cmd_rollback c e w =
     (let tx = d_tx_id e;
          w1 = journal_append e tx A_manual_rollback T_started 1 (init_journal e w);
          rollback_to = (if target_tx c = [] then get_last_successful_tx w1 else target_tx c)
      in if rollback_to = [] then (1, journal_append e tx A_manual_rollback T_failed 1 w1, [])
         else
           (case restore_backup rollback_to w1 of
              (Suc _, w2) \<Rightarrow> (1, journal_append e tx A_manual_rollback T_failed 1 w1, [])
            | (0, w2) \<Rightarrow>
                (let w3 = w2\<lparr>live_dist := d_restart_dist e (live_dist w2)\<rparr> in
                 if \<not> d_restart_ok e then
                   (1, journal_append e tx A_manual_rollback T_failed 1 w3,
                    [Cmd_stop_sh, Cmd_restore_backup rollback_to, Cmd_start_sh])
                 else
                   (let (ok, tr) = (if mr_force c then (True, []) else check_health e) in
                    if \<not> ok then
                      (1, journal_append e tx A_manual_rollback T_failed 1 w3,
                       [Cmd_stop_sh, Cmd_restore_backup rollback_to, Cmd_start_sh] @ tr)
                    else
                      (0, update_current_state e CS_rolled_back rollback_to (d_version e)
                            (journal_append e tx A_manual_rollback T_success 1 w3),
                       [Cmd_stop_sh, Cmd_restore_backup rollback_to, Cmd_start_sh] @ tr)))))"

subsection \<open>rollback.sh: rollback to a git commit\<close>








text \<open>A host on which \<open>command -v\<close> finds none of the inspection tools.\<close>

definition no_tools :: host_tools where
  "no_tools =
     \<lparr> has_ss = False, has_netstat = False, has_lsof = False, has_nc = False,
       has_timeout = False, has_curl = False, has_wget = False,
       ss_tln = (\<lambda>_. False), netstat_tln = (\<lambda>_. False), lsof_listen = (\<lambda>_. []),
       nc_z = (\<lambda>_ _. False), dev_tcp = (\<lambda>_ _. False),
       curl_http_code = (\<lambda>_ _. None), wget_spider = (\<lambda>_ _. False),
       ss_tlnp_pid = (\<lambda>_. []) \<rparr>"

definition cfg_4173 :: health_cfg where
  "cfg_4173 = \<lparr> cfg_host = ''localhost'', cfg_port = 4173, cfg_update_state = True,
                cfg_now = ''2026-02-15T12:00:00Z'' \<rparr>"

text \<open>
  A host with ss and curl installed on which nothing listens on any port, although an
  HTTP request, were one sent, would be answered with 200.
\<close>

definition closed_port_host :: host_tools where
  "closed_port_host =
     \<lparr> has_ss = True, has_netstat = False, has_lsof = False, has_nc = False,
       has_timeout = False, has_curl = True, has_wget = False,
       ss_tln = (\<lambda>_. False), netstat_tln = (\<lambda>_. False), lsof_listen = (\<lambda>_. []),
       nc_z = (\<lambda>_ _. False), dev_tcp = (\<lambda>_ _. False),
       curl_http_code = (\<lambda>_ _. Some 200), wget_spider = (\<lambda>_ _. False),
       ss_tlnp_pid = (\<lambda>_. []) \<rparr>"

subsection \<open>Concrete hosts and files\<close>

text \<open>A socket table with nothing on any port, and one with PID 4242 listening.\<close>

definition no_socket_view :: sock_view where
  "no_socket_view = \<lparr> v_has_lsof = True, v_has_ss = True,
                        v_lsof_t = (\<lambda>_. []), v_ss_p = (\<lambda>_. []) \<rparr>"

definition listening_view :: sock_view where
  "listening_view = \<lparr> v_has_lsof = True, v_has_ss = True,
                        v_lsof_t = (\<lambda>_. [''4242'']), v_ss_p = (\<lambda>_. ''4242'') \<rparr>"

text \<open>A host on which no process of interest is alive and nothing listens.\<close>

definition quiet_env :: sup_env where
  "quiet_env = \<lparr> self_pid = ''900'', now_ts = ''2026-02-15T12:00:00Z'',
                   view0 = no_socket_view, kill0 = (\<lambda>_. False), kill0_later = (\<lambda>_. False),
                   alive_after_term = (\<lambda>_ _. False), alive_after_kill = (\<lambda>_. False) \<rparr>"

text \<open>The same host while another start.sh, PID 777, is running.\<close>

definition contended_env :: sup_env where
  "contended_env = \<lparr> self_pid = ''900'', now_ts = ''2026-02-15T12:00:00Z'',
                       view0 = no_socket_view, kill0 = (\<lambda>x. x = ''777''),
                       kill0_later = (\<lambda>x. x = ''777''),
                       alive_after_term = (\<lambda>_ _. False), alive_after_kill = (\<lambda>_. False) \<rparr>"

text \<open>
  A server that is launched as PID 4242 and listens from the second poll on; curl is
  not installed.
\<close>

definition launch_no_curl :: launch_env where
  "launch_no_curl = \<lparr> l_has_curl = False, build_ok = True, spawn_pid = ''4242'',
                        poll_view = (\<lambda>i. if i < 2 then no_socket_view else listening_view),
                        poll_curl = (\<lambda>_. None),
                        poll_spawn_alive = (\<lambda>_. True), spawn_alive_at_timeout = False \<rparr>"

definition files_after_crash :: sup_files where
  "files_after_crash = \<lparr> logs_dir = True, lock_file = None, pid_file = Some ''4242'',
                           watchdog_pid = None, state_file = None \<rparr>"

text \<open>A checkout in which nothing was ever started: there is no logs directory.\<close>

definition fresh_checkout :: sup_files where
  "fresh_checkout = \<lparr> logs_dir = False, lock_file = None, pid_file = None,
                        watchdog_pid = None, state_file = None \<rparr>"

definition files_locked :: sup_files where
  "files_locked = \<lparr> logs_dir = True, lock_file = Some ''777'', pid_file = None,
                      watchdog_pid = None, state_file = None \<rparr>"

definition stop_cfg_4173 :: stop_cfg where
  "stop_cfg_4173 = \<lparr> stop_port = 4173, stop_force = False \<rparr>"

definition start_cfg_dev :: start_cfg where
  "start_cfg_dev = \<lparr> st_port = 4173, st_host = ''0.0.0.0'', st_mode = Dev,
                       st_build = True, st_clean = False, st_force = False \<rparr>"

definition restart_cfg_dev :: restart_cfg where
  "restart_cfg_dev = \<lparr> rs_port = 4173, rs_mode = Dev, rs_dry_run = False \<rparr>"

text \<open>
  A site after \<open>init\<close>, some deploy configurations, and the observations of some
  runs: \<open>env_n tx t\<close> is a run in which every step succeeds and every build leaves
  the tree 2, \<open>env_B\<close> one whose health endpoint never reports ready and whose
  sources build to the tree 3, \<open>env_C\<close> one in which start.sh fails, \<open>env_R\<close> one
  that is started while the process 600 of \<open>env_B\<close> is alive. \<open>world_after_A\<close> is
  the site after a first successful deploy, \<open>world_deploying\<close> the same with the lock
  of a running deploy.
\<close>

definition fresh_world :: dworld where
  "fresh_world = \<lparr> journal_dir = True, journal_file = Some [],
                     current_state = Some \<lparr> cs_status = CS_initialized,
                                            cs_timestamp = ''2026-02-15T11:00:00Z'',
                                            cs_tx = None, cs_version = None \<rparr>,
                     deploy_lock = None, backups = [], live_dist = Some 1 \<rparr>"

definition full_deploy :: deploy_cfg where
  "full_deploy = \<lparr> pre_build = True, health_check = True \<rparr>"

definition quick_deploy :: deploy_cfg where
  "quick_deploy = \<lparr> pre_build = False, health_check = False \<rparr>"

text \<open>The command \<open>deploy\<close> with no option: no build, and a health check.\<close>

definition default_deploy :: deploy_cfg where
  "default_deploy = \<lparr> pre_build = False, health_check = True \<rparr>"

definition env_n :: "string \<Rightarrow> nat \<Rightarrow> denv" where
  "env_n tx t = \<lparr> d_self_pid = ''500'', d_tx_id = tx, d_now = ''2026-02-15T12:00:00Z'',
               d_mtime = t, d_kill0 = (\<lambda>_. False), d_build_ok = True,
               d_built_dist = Some 2, d_start_ok = True, d_start_dist = (\<lambda>_. Some 2),
               d_restart_ok = True, d_restart_dist = (\<lambda>_. Some 2),
               d_live_ok = True, d_ready = (\<lambda>_. True), d_version = ''1.0.0'' \<rparr>"

definition env_A :: denv where
  "env_A = env_n ''tx-A'' 1000"

definition env_B :: denv where
  "env_B = \<lparr> d_self_pid = ''600'', d_tx_id = ''tx-B'', d_now = ''2026-02-15T13:00:00Z'',
               d_mtime = 2000, d_kill0 = (\<lambda>_. False), d_build_ok = True,
               d_built_dist = Some 3, d_start_ok = True, d_start_dist = (\<lambda>_. Some 3),
               d_restart_ok = True, d_restart_dist = (\<lambda>_. Some 3),
               d_live_ok = True, d_ready = (\<lambda>_. False), d_version = ''1.0.0'' \<rparr>"

definition env_C :: denv where
  "env_C = (env_n ''tx-C'' 3000)\<lparr> d_now := ''2026-02-15T14:00:00Z'', d_start_ok := False \<rparr>"

definition env_R :: denv where
  "env_R = \<lparr> d_self_pid = ''700'', d_tx_id = ''tx-R'', d_now = ''2026-02-15T13:00:00Z'',
               d_mtime = 2000, d_kill0 = (\<lambda>x. x = ''600''), d_build_ok = True,
               d_built_dist = Some 3, d_start_ok = True, d_start_dist = (\<lambda>_. Some 3),
               d_restart_ok = True, d_restart_dist = (\<lambda>_. Some 3),
               d_live_ok = True, d_ready = (\<lambda>_. True), d_version = ''1.0.0'' \<rparr>"

definition world_after_A :: dworld where
  "world_after_A =
     \<lparr> journal_dir = True,
       journal_file = Some
         [JLine ''tx-A'' A_deploy_start T_started True,
          JLine ''tx-A'' A_backup_created T_success False, JFragment,
          JLine ''tx-A'' A_build_start T_started True,
          JLine ''tx-A'' A_build_complete T_success True,
          JLine ''tx-A'' A_server_start T_started True,
          JLine ''tx-A'' A_server_start T_success True,
          JLine ''tx-A'' A_health_check T_success True,
          JLine ''tx-A'' A_deploy_complete T_success True],
       current_state = Some \<lparr> cs_status = CS_deployed, cs_timestamp = ''2026-02-15T12:00:00Z'',
                              cs_tx = Some ''tx-A'', cs_version = Some ''1.0.0'' \<rparr>,
       deploy_lock = None,
       backups = [(''tx-A'', \<lparr> b_mtime = 1000, b_dist = Some 1 \<rparr>)],
       live_dist = Some 2 \<rparr>"

definition world_deploying :: dworld where
  "world_deploying = world_after_A\<lparr>deploy_lock := Some ''600''\<rparr>"

definition rollback_default :: manual_cfg where
  "rollback_default = \<lparr> target_tx = [], mr_force = False \<rparr>"

definition six_envs :: "denv list" where
  "six_envs = [env_n ''tx-1'' 1001, env_n ''tx-2'' 1002, env_n ''tx-3'' 1003,
               env_n ''tx-4'' 1004, env_n ''tx-5'' 1005, env_n ''tx-6'' 1006]"

text \<open>A backup directory with six entries, listed in no particular order.\<close>

definition six_backups :: "(string \<times> backup) list" where
  "six_backups = [(''tx-3'', \<lparr> b_mtime = 1003, b_dist = Some 1 \<rparr>),
                  (''tx-6'', \<lparr> b_mtime = 1006, b_dist = Some 1 \<rparr>),
                  (''tx-1'', \<lparr> b_mtime = 1001, b_dist = None \<rparr>),
                  (''tx-5'', \<lparr> b_mtime = 1005, b_dist = Some 1 \<rparr>),
                  (''tx-2'', \<lparr> b_mtime = 1002, b_dist = Some 1 \<rparr>),
                  (''tx-4'', \<lparr> b_mtime = 1004, b_dist = Some 1 \<rparr>)]"





text \<open>A trace without an HTTP request: neither curl nor wget was run.\<close>

definition no_http_probe :: "tool_cmd list \<Rightarrow> bool" where
  "no_http_probe tr = (Cmd_curl \<notin> set tr \<and> Cmd_wget \<notin> set tr)"

section \<open>Theorems\<close>

subsection \<open>watchdog-health.sh\<close>

lemma check_port_listening_no_http:
  "Cmd_curl \<notin> set (snd (check_port_listening t h p)) \<and>
   Cmd_wget \<notin> set (snd (check_port_listening t h p))"
  by (simp add: check_port_listening_def)

text \<open>
  Claim C3. Whenever the port test of \<open>perform_health_check\<close> fails (any non-zero
  status), the snapshot has \<open>port_status = not_listening\<close>, \<open>http_status = unknown\<close>,
  \<open>healthy = false\<close>, an error message and no PID, the exit code is 1, and neither curl
  nor wget was run: the HTTP probe is never attempted.
\<close>

theorem C3_port_closed_snapshot:
  assumes "fst (check_port_listening t (cfg_host c) (cfg_port c)) \<noteq> 0"
  shows "port_status (snapshot (perform_health_check t c old)) = PS_not_listening
       \<and> http_status (snapshot (perform_health_check t c old)) = HS_unknown
       \<and> healthy (snapshot (perform_health_check t c old)) = False
       \<and> error (snapshot (perform_health_check t c old)) \<noteq> None
       \<and> pid (snapshot (perform_health_check t c old)) = None
       \<and> exit_code (perform_health_check t c old) = 1
       \<and> Cmd_curl \<notin> set (probes (perform_health_check t c old))
       \<and> Cmd_wget \<notin> set (probes (perform_health_check t c old))"
proof -
  obtain rc tr where ck: "check_port_listening t (cfg_host c) (cfg_port c) = (rc, tr)"
    by (cases "check_port_listening t (cfg_host c) (cfg_port c)")
  from assms ck have rc: "rc \<noteq> 0" by simp
  from check_port_listening_no_http [of t "cfg_host c" "cfg_port c"] ck
  have tr: "Cmd_curl \<notin> set tr" "Cmd_wget \<notin> set tr" by simp_all
  show ?thesis
    using rc tr by (simp add: perform_health_check_def ck Let_def pid_json_def)
qed

theorem C3_port_closed_snapshot_witness:
  "fst (check_port_listening closed_port_host (cfg_host cfg_4173) (cfg_port cfg_4173)) \<noteq> 0
   \<and> port_status (snapshot (perform_health_check closed_port_host cfg_4173 None)) = PS_not_listening
   \<and> http_status (snapshot (perform_health_check closed_port_host cfg_4173 None)) = HS_unknown
   \<and> healthy (snapshot (perform_health_check closed_port_host cfg_4173 None)) = False
   \<and> pid (snapshot (perform_health_check closed_port_host cfg_4173 None)) = None
   \<and> exit_code (perform_health_check closed_port_host cfg_4173 None) = 1
   \<and> Cmd_curl \<notin> set (probes (perform_health_check closed_port_host cfg_4173 None))"
proof -
  have h: "fst (check_port_listening closed_port_host (cfg_host cfg_4173) (cfg_port cfg_4173)) \<noteq> 0"
    by (simp add: check_port_listening_def closed_port_host_def status_of_def)
  from C3_port_closed_snapshot [OF h, of None] h show ?thesis by simp
qed

lemma perform_health_check_exit_code:
  "exit_code (perform_health_check t c old) = 0 \<or> exit_code (perform_health_check t c old) = 1"
  by (cases "check_port_listening t (cfg_host c) (cfg_port c)")
     (simp add: perform_health_check_def Let_def split: prod.splits)

text \<open>
  Claim C2 (the code departs from it). On a host with no inspection tool at all,
  \<open>check_port_listening\<close> returns 2, and \<open>perform_health_check\<close> nevertheless exits
  with 1 and writes \<open>port_status = not_listening\<close>, \<open>healthy = false\<close>: the tooling
  error is reported as an ordinary unhealthy verdict.
\<close>

theorem C2_no_tools_reported_as_unhealthy:
  "fst (check_port_listening no_tools (cfg_host cfg_4173) (cfg_port cfg_4173)) = 2
   \<and> exit_code (perform_health_check no_tools cfg_4173 None) = 1
   \<and> port_status (snapshot (perform_health_check no_tools cfg_4173 None)) = PS_not_listening
   \<and> http_status (snapshot (perform_health_check no_tools cfg_4173 None)) = HS_unknown
   \<and> healthy (snapshot (perform_health_check no_tools cfg_4173 None)) = False
   \<and> error (snapshot (perform_health_check no_tools cfg_4173 None)) = Some (Port_not_listening 4173)
   \<and> hr_state_file (perform_health_check no_tools cfg_4173 None)
       = Some (snapshot (perform_health_check no_tools cfg_4173 None))"
  by (simp add: perform_health_check_def check_port_listening_def no_tools_def cfg_4173_def
                Let_def)

subsection \<open>stop.sh\<close>

lemma stop_watchdog_logs_dir: "logs_dir (fst (stop_watchdog e f)) = logs_dir f"
  by (simp add: stop_watchdog_def split: option.splits)

lemma stop_main_unoccupied:
  assumes "logs_dir f" and "fst (find_process_on_port (view0 e) (stop_port c)) = []"
  shows "stop_main c e f =
           (0, (fst (stop_watchdog e f))\<lparr>pid_file := None, lock_file := None,
                  state_file := Some (stopped_snapshot e (stop_port c))\<rparr>,
            snd (stop_watchdog e f) @ snd (find_process_on_port (view0 e) (stop_port c)))"
proof -
  obtain f1 tr1 where w: "stop_watchdog e f = (f1, tr1)" by (cases "stop_watchdog e f")
  obtain p tr2 where fp: "find_process_on_port (view0 e) (stop_port c) = (p, tr2)"
    by (cases "find_process_on_port (view0 e) (stop_port c)")
  from assms(2) fp have p: "p = []" by simp
  from stop_watchdog_logs_dir [of e f] w assms(1) have d: "logs_dir f1" by simp
  show ?thesis using p d by (simp add: stop_main_def w fp)
qed

lemma stop_main_logs_dir: "logs_dir (files_of (stop_main c e f)) = logs_dir f"
proof -
  obtain f1 tr1 where w: "stop_watchdog e f = (f1, tr1)" by (cases "stop_watchdog e f")
  obtain p tr2 where fp: "find_process_on_port (view0 e) (stop_port c) = (p, tr2)"
    by (cases "find_process_on_port (view0 e) (stop_port c)")
  obtain rc tr3 where k: "kill_process (stop_force c) e p = (rc, tr3)"
    by (cases "kill_process (stop_force c) e p")
  from stop_watchdog_logs_dir [of e f] w have d: "logs_dir f1 = logs_dir f" by simp
  show ?thesis using d by (simp add: stop_main_def w fp k files_of_def Let_def)
qed

lemma stop_watchdog_state_file: "state_file (fst (stop_watchdog e f)) = state_file f"
  by (simp add: stop_watchdog_def split: option.splits)

lemma stop_main_no_logs_dir:
  assumes "\<not> logs_dir f" and "fst (find_process_on_port (view0 e) (stop_port c)) = []"
  shows "stop_main c e f =
           (1, (fst (stop_watchdog e f))\<lparr>pid_file := None, lock_file := None\<rparr>,
            snd (stop_watchdog e f) @ snd (find_process_on_port (view0 e) (stop_port c)))"
proof -
  obtain f1 tr1 where w: "stop_watchdog e f = (f1, tr1)" by (cases "stop_watchdog e f")
  obtain p tr2 where fp: "find_process_on_port (view0 e) (stop_port c) = (p, tr2)"
    by (cases "find_process_on_port (view0 e) (stop_port c)")
  from assms(2) fp have p: "p = []" by simp
  from stop_watchdog_logs_dir [of e f] w assms(1) have d: "\<not> logs_dir f1" by simp
  show ?thesis using p d by (simp add: stop_main_def w fp)
qed

lemma stop_main_no_logs_state:
  assumes "\<not> logs_dir f"
  shows "state_file (files_of (stop_main c e f)) = state_file f"
proof -
  obtain f1 tr1 where w: "stop_watchdog e f = (f1, tr1)" by (cases "stop_watchdog e f")
  obtain p tr2 where fp: "find_process_on_port (view0 e) (stop_port c) = (p, tr2)"
    by (cases "find_process_on_port (view0 e) (stop_port c)")
  obtain rc tr3 where k: "kill_process (stop_force c) e p = (rc, tr3)"
    by (cases "kill_process (stop_force c) e p")
  from stop_watchdog_logs_dir [of e f] w assms have d: "\<not> logs_dir f1" by simp
  from stop_watchdog_state_file [of e f] w have st: "state_file f1 = state_file f" by simp
  show ?thesis using d st by (simp add: stop_main_def w fp k files_of_def Let_def)
qed

text \<open>
  Where the logs directory exists, every run of stop.sh that finds no process on the
  target port exits with 0, removes the PID file and the lock file, and writes the
  terminal snapshot with \<open>healthy = false\<close> and \<open>mode = stopped\<close>; the same holds
  for a second run that follows any first run.
\<close>

lemma stop_main_idempotent_with_logs_dir:
  assumes "logs_dir f"
      and "fst (find_process_on_port (view0 e) (stop_port c)) = []"
  shows "exit_of (stop_main c e f) = 0
       \<and> pid_file (files_of (stop_main c e f)) = None
       \<and> lock_file (files_of (stop_main c e f)) = None
       \<and> state_file (files_of (stop_main c e f)) = Some (stopped_snapshot e (stop_port c))
       \<and> healthy (stopped_snapshot e (stop_port c)) = False
       \<and> mode (stopped_snapshot e (stop_port c)) = Some M_stopped
       \<and> exit_of (stop_main c e (files_of (stop_main c e1 f))) = 0
       \<and> pid_file (files_of (stop_main c e (files_of (stop_main c e1 f)))) = None
       \<and> lock_file (files_of (stop_main c e (files_of (stop_main c e1 f)))) = None
       \<and> state_file (files_of (stop_main c e (files_of (stop_main c e1 f))))
           = Some (stopped_snapshot e (stop_port c))"
proof -
  have d1: "logs_dir (files_of (stop_main c e1 f))"
    using assms(1) by (simp add: stop_main_logs_dir)
  show ?thesis
    using stop_main_unoccupied [OF assms(1) assms(2)]
          stop_main_unoccupied [OF d1 assms(2)]
    by (simp add: exit_of_def files_of_def stopped_snapshot_def)
qed

text \<open>
  Claim C7 (the code departs from it). stop.sh writes the terminal snapshot with
  \<open>cat > "${STATE_FILE}"\<close> and, unlike start.sh and watchdog-restart.sh, never
  creates the logs directory. In a checkout without that directory a run that finds no
  process on the target port fails at the redirection and exits with 1; no snapshot is
  written, and the state file is as it was. A second run, after any first one, fails
  the same way.
\<close>

theorem C7_stop_fails_without_logs_dir:
  assumes "\<not> logs_dir f"
      and "fst (find_process_on_port (view0 e) (stop_port c)) = []"
  shows "exit_of (stop_main c e f) = 1
       \<and> state_file (files_of (stop_main c e f)) = state_file f
       \<and> exit_of (stop_main c e (files_of (stop_main c e1 f))) = 1
       \<and> state_file (files_of (stop_main c e (files_of (stop_main c e1 f)))) = state_file f"
proof -
  have d1: "\<not> logs_dir (files_of (stop_main c e1 f))"
    using assms(1) by (simp add: stop_main_logs_dir)
  have s1: "state_file (files_of (stop_main c e1 f)) = state_file f"
    using assms(1) by (rule stop_main_no_logs_state)
  show ?thesis
    using stop_main_no_logs_dir [OF assms(1) assms(2)]
          stop_main_no_logs_dir [OF d1 assms(2)] s1
    by (simp add: exit_of_def files_of_def stop_watchdog_state_file)
qed

theorem C7_stop_fails_without_logs_dir_witness:
  "\<not> logs_dir fresh_checkout
   \<and> fst (find_process_on_port (view0 quiet_env) (stop_port stop_cfg_4173)) = []
   \<and> exit_of (stop_main stop_cfg_4173 quiet_env fresh_checkout) = 1
   \<and> state_file (files_of (stop_main stop_cfg_4173 quiet_env fresh_checkout)) = None
   \<and> exit_of (stop_main stop_cfg_4173 quiet_env
                (files_of (stop_main stop_cfg_4173 quiet_env fresh_checkout))) = 1"
proof -
  have h1: "\<not> logs_dir fresh_checkout"
    by (simp add: fresh_checkout_def)
  have h2: "fst (find_process_on_port (view0 quiet_env) (stop_port stop_cfg_4173)) = []"
    by (simp add: find_process_on_port_def quiet_env_def no_socket_view_def first_line_def)
  have h3: "state_file fresh_checkout = None"
    by (simp add: fresh_checkout_def)
  from C7_stop_fails_without_logs_dir [OF h1 h2, of quiet_env] h1 h2 h3 show ?thesis
    by simp
qed

subsection \<open>start.sh: the lock\<close>

lemma acquire_lock_status: "fst (acquire_lock e f) = 0 \<or> fst (acquire_lock e f) = 3"
  by (simp add: acquire_lock_def split: option.splits)

lemma start_main_locked_exit: "exit_of (start_main_locked c e l f0) \<le> 1"
  by (simp add: start_main_locked_def exit_of_def Let_def split: prod.splits nat.splits)

text \<open>
  Claim C6. A run of start.sh that finds a lock file whose recorded PID answers
  \<open>kill -0\<close> exits with 3, leaves every file as it was (the PID file and the state
  file among them) and runs no command. If the recorded owner is dead, or the file is
  empty, \<open>acquire_lock\<close> succeeds, the lock file holds the PID of this run, and the
  run goes on with the rest of \<open>main\<close>; its exit code is not 3.
\<close>

theorem C6_lock_contention:
  assumes "logs_dir f" and "lock_file f = Some lock_pid"
  shows "(lock_pid \<noteq> [] \<and> kill0 e lock_pid \<longrightarrow>
            exit_of (start_main c e l f) = 3
          \<and> files_of (start_main c e l f) = f
          \<and> trace_of (start_main c e l f) = [])
       \<and> (\<not> (lock_pid \<noteq> [] \<and> kill0 e lock_pid) \<longrightarrow>
            acquire_lock e f = (0, f\<lparr>lock_file := Some (self_pid e)\<rparr>)
          \<and> start_main c e l f = start_main_locked c e l (f\<lparr>lock_file := Some (self_pid e)\<rparr>)
          \<and> exit_of (start_main c e l f) \<noteq> 3)"
proof (intro conjI impI)
  assume live: "lock_pid \<noteq> [] \<and> kill0 e lock_pid"
  with assms have a: "acquire_lock e f = (3, f)"
    by (simp add: acquire_lock_def)
  from a assms(1) show "exit_of (start_main c e l f) = 3"
    by (simp add: start_main_def exit_of_def)
  from a assms(1) show "files_of (start_main c e l f) = f"
    by (simp add: start_main_def files_of_def)
  from a assms(1) show "trace_of (start_main c e l f) = []"
    by (simp add: start_main_def trace_of_def)
next
  assume dead: "\<not> (lock_pid \<noteq> [] \<and> kill0 e lock_pid)"
  with assms show a: "acquire_lock e f = (0, f\<lparr>lock_file := Some (self_pid e)\<rparr>)"
    by (auto simp add: acquire_lock_def)
  from a assms(1)
  show m: "start_main c e l f = start_main_locked c e l (f\<lparr>lock_file := Some (self_pid e)\<rparr>)"
    by (simp add: start_main_def)
  from start_main_locked_exit [of c e l "f\<lparr>lock_file := Some (self_pid e)\<rparr>"] m
  show "exit_of (start_main c e l f) \<noteq> 3" by simp
qed

theorem C6_lock_contention_witness:
  "logs_dir files_locked \<and> lock_file files_locked = Some ''777''
   \<and> kill0 contended_env ''777''
   \<and> exit_of (start_main start_cfg_dev contended_env launch_no_curl files_locked) = 3
   \<and> files_of (start_main start_cfg_dev contended_env launch_no_curl files_locked) = files_locked
   \<and> \<not> kill0 quiet_env ''777''
   \<and> acquire_lock quiet_env files_locked = (0, files_locked\<lparr>lock_file := Some ''900''\<rparr>)
   \<and> exit_of (start_main start_cfg_dev quiet_env launch_no_curl files_locked) \<noteq> 3"
proof -
  have h1: "logs_dir files_locked" and h2: "lock_file files_locked = Some ''777''"
    by (simp_all add: files_locked_def)
  have live: "''777'' \<noteq> [] \<and> kill0 contended_env ''777''"
    by (simp add: contended_env_def)
  have dead: "\<not> (''777'' \<noteq> [] \<and> kill0 quiet_env ''777'')"
    by (simp add: quiet_env_def)
  from C6_lock_contention [OF h1 h2, of contended_env start_cfg_dev launch_no_curl] live
  have a: "exit_of (start_main start_cfg_dev contended_env launch_no_curl files_locked) = 3
         \<and> files_of (start_main start_cfg_dev contended_env launch_no_curl files_locked) = files_locked"
    by blast
  from C6_lock_contention [OF h1 h2, of quiet_env start_cfg_dev launch_no_curl] dead
  have b: "acquire_lock quiet_env files_locked
             = (0, files_locked\<lparr>lock_file := Some (self_pid quiet_env)\<rparr>)
         \<and> exit_of (start_main start_cfg_dev quiet_env launch_no_curl files_locked) \<noteq> 3"
    by blast
  have sp: "self_pid quiet_env = ''900''" by (simp add: quiet_env_def)
  from a b h1 h2 live dead sp show ?thesis by simp
qed

subsection \<open>watchdog-daemon.sh\<close>

lemma daemon_iteration_zero:
  assumes "consecutive_failures s = 0"
  shows "daemon_iteration ob s = (if check_healthy ob then (Continue (s\<lparr>consecutive_failures := 0\<rparr>), [Cmd_watchdog_health]) else (Exit 1, [Cmd_watchdog_health]))"
  using assms by (simp add: daemon_iteration_def post_increment_def Let_def)

lemma daemon_loop_from_never_restarts:
  "consecutive_failures s = 0 \<Longrightarrow> Cmd_watchdog_restart \<notin> set (snd (daemon_loop_from obs s))"
proof (induction obs arbitrary: s)
  case Nil
  then show ?case by simp
next
  case (Cons ob obs)
  show ?case
  proof (cases "check_healthy ob")
    case True
    have "consecutive_failures (s\<lparr>consecutive_failures := 0\<rparr>) = 0" by simp
    from Cons.IH [OF this] True Cons.prems show ?thesis
      by (auto simp add: daemon_iteration_zero split: prod.splits)
  next
    case False
    with Cons.prems show ?thesis by (simp add: daemon_iteration_zero)
  qed
qed

lemma daemon_loop_never_restarts: "Cmd_watchdog_restart \<notin> set (snd (daemon_loop obs))"
  by (simp add: daemon_loop_def daemon_loop_from_never_restarts)

text \<open>
  Claim C4 (the code departs from it). In the first cycle of the daemon, with
  \<open>consecutive_failures = 0\<close>, an unhealthy check reaches
  \<open>((consecutive_failures++))\<close>, whose status is 1, and the shell exits with 1: no
  timestamp is recorded, and in a run of three unhealthy checks in a row the restart
  path is never invoked. By \<open>daemon_loop_never_restarts\<close> this holds for every
  sequence of observations.
\<close>

theorem C4_first_failure_ends_daemon:
  "daemon_iteration \<lparr> check_healthy = False, obs_now = 1771156800, restart_ok = True \<rparr>
                    \<lparr> consecutive_failures = 0, last_failure_time = 0 \<rparr>
     = (Exit 1, [Cmd_watchdog_health])
   \<and> daemon_loop [\<lparr> check_healthy = False, obs_now = 1771156800, restart_ok = True \<rparr>,
                   \<lparr> check_healthy = False, obs_now = 1771156860, restart_ok = True \<rparr>,
                   \<lparr> check_healthy = False, obs_now = 1771156920, restart_ok = True \<rparr>]
     = (Exit 1, [Cmd_watchdog_health])"
  by (simp add: daemon_loop_def daemon_iteration_def post_increment_def Let_def FAILURE_RESET_AFTER_def)

subsection \<open>Snapshots that say healthy without an HTTP probe\<close>

lemma no_http_probe_simps [simp]:
  "no_http_probe []"
  "no_http_probe (a @ b) = (no_http_probe a \<and> no_http_probe b)"
  "no_http_probe (x # a) = (x \<noteq> Cmd_curl \<and> x \<noteq> Cmd_wget \<and> no_http_probe a)"
  by (auto simp add: no_http_probe_def)

lemma find_process_on_port_no_http:
  "no_http_probe (snd (find_process_on_port v p))"
  by (simp add: find_process_on_port_def)

lemma restart_kill_process_no_http:
  "no_http_probe (snd (restart_kill_process e p))"
  by (simp add: restart_kill_process_def)

lemma kill_process_gracefully_no_http:
  "no_http_probe (snd (kill_process_gracefully e p))"
  by (simp add: kill_process_gracefully_def)

lemma restart_wait_loop_no_http:
  "no_http_probe (snd (restart_wait_loop l p i n))"
proof (induction n arbitrary: i)
  case 0
  show ?case by simp
next
  case (Suc n)
  obtain q tr where fp: "find_process_on_port (poll_view l i) p = (q, tr)"
    by (cases "find_process_on_port (poll_view l i) p")
  obtain r tr' where rl: "restart_wait_loop l p (Suc i) n = (r, tr')"
    by (cases "restart_wait_loop l p (Suc i) n")
  from find_process_on_port_no_http [of "poll_view l i" p] fp have 1: "no_http_probe tr" by simp
  from Suc [of "Suc i"] rl have 2: "no_http_probe tr'" by simp
  show ?case using 1 2 by (simp add: fp rl)
qed

lemma restart_wait_loop_Some:
  "fst (restart_wait_loop l p i n) = Some q \<Longrightarrow>
     q \<noteq> [] \<and> (\<exists>j<n. q = fst (find_process_on_port (poll_view l (i + j)) p)
                  \<and> (\<forall>k<j. fst (find_process_on_port (poll_view l (i + k)) p) = []))"
proof (induction n arbitrary: i)
  case 0
  then show ?case by simp
next
  case (Suc n)
  show ?case
  proof (cases "fst (find_process_on_port (poll_view l i) p) = []")
    case True
    with Suc.prems have r: "fst (restart_wait_loop l p (Suc i) n) = Some q"
      by (auto simp add: Let_def split: prod.splits if_splits)
    from Suc.IH [OF r] obtain j where j: "q \<noteq> []" "j < n"
        "q = fst (find_process_on_port (poll_view l (Suc i + j)) p)"
        "\<forall>k<j. fst (find_process_on_port (poll_view l (Suc i + k)) p) = []"
      by blast
    have "\<forall>k<Suc j. fst (find_process_on_port (poll_view l (i + k)) p) = []"
    proof (intro allI impI)
      fix k assume "k < Suc j"
      show "fst (find_process_on_port (poll_view l (i + k)) p) = []"
      proof (cases k)
        case 0
        with True show ?thesis by simp
      next
        case (Suc k')
        with \<open>k < Suc j\<close> j(4) show ?thesis by simp
      qed
    qed
    with j show ?thesis by (intro conjI exI [of _ "Suc j"]) simp_all
  next
    case False
    with Suc.prems have "q = fst (find_process_on_port (poll_view l i) p)"
      by (auto simp add: Let_def split: prod.splits if_splits)
    with False show ?thesis by (intro conjI exI [of _ 0]) simp_all
  qed
qed

lemma restart_wait_loop_found:
  assumes "j < n"
      and "\<forall>k\<le>j. poll_spawn_alive l (i + k)"
      and "fst (find_process_on_port (poll_view l (i + j)) p) \<noteq> []"
      and "\<forall>k<j. fst (find_process_on_port (poll_view l (i + k)) p) = []"
  shows "fst (restart_wait_loop l p i n) = Some (fst (find_process_on_port (poll_view l (i + j)) p))"
  using assms
proof (induction n arbitrary: i j)
  case 0
  then show ?case by simp
next
  case (Suc n)
  from Suc.prems(2) have alive: "poll_spawn_alive l i" by (metis add_0_right le0)
  show ?case
  proof (cases j)
    case 0
    with Suc.prems(3) alive show ?thesis
      by (simp add: split_beta)
  next
    case (Suc j')
    from Suc.prems(4) Suc have e0: "fst (find_process_on_port (poll_view l i) p) = []"
      by (metis add_0_right zero_less_Suc)
    have 1: "j' < n" using Suc.prems(1) Suc by simp
    have 2: "\<forall>k\<le>j'. poll_spawn_alive l (Suc i + k)"
    proof (intro allI impI)
      fix k assume "k \<le> j'"
      then have "Suc k \<le> j" using Suc by simp
      with Suc.prems(2) have "poll_spawn_alive l (i + Suc k)" by blast
      then show "poll_spawn_alive l (Suc i + k)" by simp
    qed
    have 3: "fst (find_process_on_port (poll_view l (Suc i + j')) p) \<noteq> []"
      using Suc.prems(3) Suc by simp
    have 4: "\<forall>k<j'. fst (find_process_on_port (poll_view l (Suc i + k)) p) = []"
    proof (intro allI impI)
      fix k assume "k < j'"
      then have "Suc k < j" using Suc by simp
      with Suc.prems(4) have "fst (find_process_on_port (poll_view l (i + Suc k)) p) = []" by blast
      then show "fst (find_process_on_port (poll_view l (Suc i + k)) p) = []" by simp
    qed
    from Suc.IH [OF 1 2 3 4] e0 alive Suc show ?thesis
      by (simp add: split_beta)
  qed
qed

lemma restart_start_server_found:
  assumes "\<not> rs_dry_run c" and "rs_mode c = Preview \<longrightarrow> build_ok l"
      and "fst (restart_wait_loop l (rs_port c) 1 10) = Some q"
  shows "exit_of (restart_start_server c e l f) = 0
       \<and> files_of (restart_start_server c e l f)
           = f\<lparr>state_file := Some (started_snapshot (now_ts e) ''localhost'' (rs_port c)
                                     (rs_mode c) q)\<rparr>"
proof -
  obtain tr where w: "restart_wait_loop l (rs_port c) (Suc 0) 10 = (Some q, tr)"
    using assms(3) by (cases "restart_wait_loop l (rs_port c) (Suc 0) 10") simp
  show ?thesis
    using assms(1,2) by (simp add: restart_start_server_def w exit_of_def files_of_def Let_def)
qed

lemma restart_start_server_no_http:
  "no_http_probe (trace_of (restart_start_server c e l f))"
proof -
  obtain r tr where rl: "restart_wait_loop l (rs_port c) (Suc 0) 10 = (r, tr)"
    by (cases "restart_wait_loop l (rs_port c) (Suc 0) 10")
  from restart_wait_loop_no_http [of l "rs_port c" "Suc 0" 10] rl have 1: "no_http_probe tr" by simp
  show ?thesis using 1
    by (simp add: restart_start_server_def trace_of_def Let_def rl split: option.splits)
qed

lemma restart_start_server_ok:
  assumes "\<not> rs_dry_run c" and "exit_of (restart_start_server c e l f) = 0"
  shows "\<exists>q. fst (restart_wait_loop l (rs_port c) 1 10) = Some q
           \<and> files_of (restart_start_server c e l f)
               = f\<lparr>state_file := Some (started_snapshot (now_ts e) ''localhost'' (rs_port c)
                                         (rs_mode c) q)\<rparr>"
  using assms
  by (auto simp add: restart_start_server_def exit_of_def files_of_def Let_def
           split: prod.splits option.splits if_splits)

lemma restart_main_no_http: "no_http_probe (trace_of (restart_main c e l f))"
proof -
  obtain cur tr1 where fp: "find_process_on_port (view0 e) (rs_port c) = (cur, tr1)"
    by (cases "find_process_on_port (view0 e) (rs_port c)")
  obtain rc tr2 where k: "restart_kill_process e cur = (rc, tr2)"
    by (cases "restart_kill_process e cur")
  obtain rs fs trs where ss: "restart_start_server c e l (f\<lparr>logs_dir := True\<rparr>) = (rs, fs, trs)"
    by (cases "restart_start_server c e l (f\<lparr>logs_dir := True\<rparr>)")
  from find_process_on_port_no_http [of "view0 e" "rs_port c"] fp have 1: "no_http_probe tr1" by simp
  from restart_kill_process_no_http [of e cur] k have 2: "no_http_probe tr2" by simp
  from restart_start_server_no_http [of c e l "f\<lparr>logs_dir := True\<rparr>"] ss
  have 3: "no_http_probe trs" by (simp add: trace_of_def)
  show ?thesis using 1 2 3
    by (simp add: restart_main_def fp k ss trace_of_def Let_def split: nat.splits)
qed

lemma restart_main_ok:
  assumes "\<not> rs_dry_run c" and "exit_of (restart_main c e l f) = 0"
  shows "\<exists>q. fst (restart_wait_loop l (rs_port c) 1 10) = Some q
           \<and> state_file (files_of (restart_main c e l f))
               = Some (started_snapshot (now_ts e) ''localhost'' (rs_port c) (rs_mode c) q)"
proof -
  obtain cur tr1 where fp: "find_process_on_port (view0 e) (rs_port c) = (cur, tr1)"
    by (cases "find_process_on_port (view0 e) (rs_port c)")
  obtain rc tr2 where k: "(if cur = [] then (0, []) else restart_kill_process e cur) = (rc, tr2)"
    by (cases "(if cur = [] then (0::nat, []) else restart_kill_process e cur)")
  obtain rs fs trs where ss: "restart_start_server c e l (f\<lparr>logs_dir := True\<rparr>) = (rs, fs, trs)"
    by (cases "restart_start_server c e l (f\<lparr>logs_dir := True\<rparr>)")
  from assms have rs0: "rs = 0" and rc0: "rc = 0"
    by (auto simp add: restart_main_def fp k ss exit_of_def Let_def split: nat.splits if_splits)
  from rs0 ss have "exit_of (restart_start_server c e l (f\<lparr>logs_dir := True\<rparr>)) = 0"
    by (simp add: exit_of_def)
  from restart_start_server_ok [OF assms(1) this] ss
  obtain q where q: "fst (restart_wait_loop l (rs_port c) 1 10) = Some q"
     "fs = f\<lparr>logs_dir := True, state_file := Some (started_snapshot (now_ts e) ''localhost'' (rs_port c) (rs_mode c) q)\<rparr>"
    by (auto simp add: files_of_def)
  show ?thesis using q rs0 rc0 assms(1)
    by (simp add: restart_main_def fp k ss files_of_def Let_def)
qed

lemma wait_for_healthy_loop_no_curl:
  "\<not> l_has_curl l \<Longrightarrow> no_http_probe (snd (wait_for_healthy_loop l p i n))"
proof (induction n arbitrary: i)
  case 0
  show ?case by simp
next
  case (Suc n)
  obtain q tr where fp: "find_process_on_port (poll_view l i) p = (q, tr)"
    by (cases "find_process_on_port (poll_view l i) p")
  obtain r tr' where rl: "wait_for_healthy_loop l p (Suc i) n = (r, tr')"
    by (cases "wait_for_healthy_loop l p (Suc i) n")
  from find_process_on_port_no_http [of "poll_view l i" p] fp have 1: "no_http_probe tr" by simp
  from Suc.IH [OF Suc.prems, of "Suc i"] rl have 2: "no_http_probe tr'" by simp
  show ?case using 1 2 Suc.prems by (simp add: fp rl)
qed

lemma wait_for_healthy_loop_Some:
  assumes "\<not> l_has_curl l" and "fst (wait_for_healthy_loop l p i n) = Some q"
  shows "q \<noteq> [] \<and> (\<exists>j<n. q = fst (find_process_on_port (poll_view l (i + j)) p)
                  \<and> (\<forall>k<j. fst (find_process_on_port (poll_view l (i + k)) p) = []))"
  using assms(2)
proof (induction n arbitrary: i)
  case 0
  then show ?case by simp
next
  case (Suc n)
  show ?case
  proof (cases "fst (find_process_on_port (poll_view l i) p) = []")
    case True
    with Suc.prems have r: "fst (wait_for_healthy_loop l p (Suc i) n) = Some q"
      by (simp add: split_beta)
    from Suc.IH [OF r] obtain j where j: "q \<noteq> []" "j < n"
        "q = fst (find_process_on_port (poll_view l (Suc i + j)) p)"
        "\<forall>k<j. fst (find_process_on_port (poll_view l (Suc i + k)) p) = []"
      by blast
    have "\<forall>k<Suc j. fst (find_process_on_port (poll_view l (i + k)) p) = []"
    proof (intro allI impI)
      fix k assume "k < Suc j"
      show "fst (find_process_on_port (poll_view l (i + k)) p) = []"
      proof (cases k)
        case 0
        with True show ?thesis by simp
      next
        case (Suc k')
        with \<open>k < Suc j\<close> j(4) show ?thesis by simp
      qed
    qed
    with j show ?thesis by (intro conjI exI [of _ "Suc j"]) simp_all
  next
    case False
    with Suc.prems assms(1) have "q = fst (find_process_on_port (poll_view l i) p)"
      by (simp add: split_beta)
    with False show ?thesis by (intro conjI exI [of _ 0]) simp_all
  qed
qed

lemma wait_for_healthy_loop_found:
  assumes "\<not> l_has_curl l" and "j < n"
      and "fst (find_process_on_port (poll_view l (i + j)) p) \<noteq> []"
      and "\<forall>k<j. fst (find_process_on_port (poll_view l (i + k)) p) = []"
  shows "fst (wait_for_healthy_loop l p i n) = Some (fst (find_process_on_port (poll_view l (i + j)) p))"
  using assms(2-)
proof (induction n arbitrary: i j)
  case 0
  then show ?case by simp
next
  case (Suc n)
  show ?case
  proof (cases j)
    case 0
    with Suc.prems(2) assms(1) show ?thesis
      by (simp add: split_beta)
  next
    case (Suc j')
    from Suc.prems(3) Suc have e0: "fst (find_process_on_port (poll_view l i) p) = []"
      by (metis add_0_right zero_less_Suc)
    have 1: "j' < n" using Suc.prems(1) Suc by simp
    have 3: "fst (find_process_on_port (poll_view l (Suc i + j')) p) \<noteq> []"
      using Suc.prems(2) Suc by simp
    have 4: "\<forall>k<j'. fst (find_process_on_port (poll_view l (Suc i + k)) p) = []"
    proof (intro allI impI)
      fix k assume "k < j'"
      then have "Suc k < j" using Suc by simp
      with Suc.prems(3) have "fst (find_process_on_port (poll_view l (i + Suc k)) p) = []" by blast
      then show "fst (find_process_on_port (poll_view l (Suc i + k)) p) = []" by simp
    qed
    from Suc.IH [OF 1 3 4] e0 Suc show ?thesis
      by (simp add: split_beta)
  qed
qed

lemma stop_existing_no_http: "no_http_probe (trace_of (stop_existing c e f))"
proof -
  obtain cur tr1 where fp: "find_process_on_port (view0 e) (st_port c) = (cur, tr1)"
    by (cases "find_process_on_port (view0 e) (st_port c)")
  obtain rc tr2 where k: "kill_process_gracefully e cur = (rc, tr2)"
    by (cases "kill_process_gracefully e cur")
  from find_process_on_port_no_http [of "view0 e" "st_port c"] fp have 1: "no_http_probe tr1" by simp
  from kill_process_gracefully_no_http [of e cur] k have 2: "no_http_probe tr2" by simp
  show ?thesis using 1 2
    by (simp add: stop_existing_def fp k trace_of_def Let_def)
qed

lemma run_build_no_http: "no_http_probe (snd (run_build c l))"
  by (simp add: run_build_def)

lemma start_server_no_curl:
  assumes "\<not> l_has_curl l"
  shows "no_http_probe (trace_of (start_server c e l f))"
proof -
  obtain r tr where w: "wait_for_healthy_loop l (st_port c) (Suc 0) 6 = (r, tr)"
    by (cases "wait_for_healthy_loop l (st_port c) (Suc 0) 6")
  from wait_for_healthy_loop_no_curl [OF assms, of "st_port c" "Suc 0" 6] w have 1: "no_http_probe tr" by simp
  show ?thesis using 1
    by (simp add: start_server_def wait_for_healthy_def trace_of_def w split: option.splits)
qed

lemma start_server_ok:
  assumes "exit_of (start_server c e l f) = 0"
  shows "\<exists>q. fst (wait_for_healthy l (st_port c)) = Some q
           \<and> files_of (start_server c e l f)
              = f\<lparr>pid_file := Some q,
                  state_file := Some (started_snapshot (now_ts e) (st_host c) (st_port c) (st_mode c) q)\<rparr>"
  using assms
  by (auto simp add: start_server_def exit_of_def files_of_def split: prod.splits option.splits)

lemma start_server_found:
  assumes "fst (wait_for_healthy l (st_port c)) = Some q"
  shows "exit_of (start_server c e l f) = 0
       \<and> trace_of (start_server c e l f)
           = Cmd_launch (st_mode c) # snd (wait_for_healthy l (st_port c))
       \<and> files_of (start_server c e l f)
           = f\<lparr>pid_file := Some q,
               state_file := Some (started_snapshot (now_ts e) (st_host c) (st_port c)
                                     (st_mode c) q)\<rparr>"
proof -
  obtain tr where w: "wait_for_healthy l (st_port c) = (Some q, tr)"
    using assms by (cases "wait_for_healthy l (st_port c)") simp
  show ?thesis
    by (simp add: start_server_def w exit_of_def files_of_def trace_of_def)
qed

lemma start_main_locked_no_curl:
  assumes "\<not> l_has_curl l"
  shows "no_http_probe (trace_of (start_main_locked c e l f))"
proof -
  obtain r1 f1 tr1 where se: "stop_existing c e f = (r1, f1, tr1)" by (cases "stop_existing c e f")
  obtain r3 tr3 where rb: "run_build c l = (r3, tr3)" by (cases "run_build c l")
  obtain r4 f4 tr4 where ss: "start_server c e l f1 = (r4, f4, tr4)" by (cases "start_server c e l f1")
  from stop_existing_no_http [of c e f] se have 1: "no_http_probe tr1" by (simp add: trace_of_def)
  from run_build_no_http [of c l] rb have 3: "no_http_probe tr3" by simp
  from start_server_no_curl [OF assms, of c e f1] ss have 4: "no_http_probe tr4" by (simp add: trace_of_def)
  show ?thesis using 1 3 4
    by (simp add: start_main_locked_def se rb ss trace_of_def Let_def split: nat.splits)
qed

lemma start_main_locked_ok:
  assumes "exit_of (start_main_locked c e l f) = 0"
  shows "\<exists>q. fst (wait_for_healthy l (st_port c)) = Some q
           \<and> pid_file (files_of (start_main_locked c e l f)) = Some q
           \<and> state_file (files_of (start_main_locked c e l f))
               = Some (started_snapshot (now_ts e) (st_host c) (st_port c) (st_mode c) q)"
proof -
  obtain r1 f1 tr1 where se: "stop_existing c e f = (r1, f1, tr1)" by (cases "stop_existing c e f")
  obtain r3 tr3 where rb: "run_build c l = (r3, tr3)" by (cases "run_build c l")
  obtain r4 f4 tr4 where ss: "start_server c e l f1 = (r4, f4, tr4)" by (cases "start_server c e l f1")
  from assms have z: "r1 = 0" "r3 = 0" "r4 = 0"
    by (auto simp add: start_main_locked_def se rb ss exit_of_def Let_def split: nat.splits)
  from z ss have "exit_of (start_server c e l f1) = 0" by (simp add: exit_of_def)
  from start_server_ok [OF this] ss obtain q where
    q: "fst (wait_for_healthy l (st_port c)) = Some q"
       "f4 = f1\<lparr>pid_file := Some q,
                state_file := Some (started_snapshot (now_ts e) (st_host c) (st_port c) (st_mode c) q)\<rparr>"
    by (auto simp add: files_of_def)
  show ?thesis using q z
    by (simp add: start_main_locked_def se rb ss files_of_def release_lock_def Let_def)
qed

text \<open>
  Claim C10. watchdog-restart.sh never runs curl or wget. When it exits with 0 (dry
  runs apart) the state file is the snapshot \<open>port_status = listening\<close>,
  \<open>http_status = healthy\<close>, \<open>healthy = true\<close> with the PID that the first
  successful port lookup found; and its \<open>start_server\<close> writes that snapshot as soon
  as a poll finds a PID on the port, provided the build (in preview mode) succeeded and
  the launched process was alive at every poll so far. start.sh without curl does the
  same: a run that exits with 0 has made no HTTP request and has written, to the PID
  file and into that snapshot, the PID of the first port lookup that found one among
  its six polls; and its \<open>start_server\<close> succeeds with that snapshot as soon as a
  poll finds a PID on the port.
\<close>

theorem C10_healthy_without_http_probe:
  "no_http_probe (trace_of (restart_main c e l f))
   \<and> (\<not> rs_dry_run c \<and> exit_of (restart_main c e l f) = 0 \<longrightarrow>
        (\<exists>q. q \<noteq> []
           \<and> (\<exists>j<10. q = fst (find_process_on_port (poll_view l (1 + j)) (rs_port c))
                 \<and> (\<forall>k<j. fst (find_process_on_port (poll_view l (1 + k)) (rs_port c)) = []))
           \<and> state_file (files_of (restart_main c e l f))
               = Some (started_snapshot (now_ts e) ''localhost'' (rs_port c) (rs_mode c) q)))
   \<and> (\<not> rs_dry_run c \<and> (rs_mode c = Preview \<longrightarrow> build_ok l) \<and> j < 10
        \<and> (\<forall>k\<le>j. poll_spawn_alive l (1 + k))
        \<and> fst (find_process_on_port (poll_view l (1 + j)) (rs_port c)) \<noteq> []
        \<and> (\<forall>k<j. fst (find_process_on_port (poll_view l (1 + k)) (rs_port c)) = []) \<longrightarrow>
        exit_of (restart_start_server c e l f) = 0
      \<and> no_http_probe (trace_of (restart_start_server c e l f))
      \<and> files_of (restart_start_server c e l f)
          = f\<lparr>state_file := Some (started_snapshot (now_ts e) ''localhost'' (rs_port c) (rs_mode c)
                                    (fst (find_process_on_port (poll_view l (1 + j)) (rs_port c))))\<rparr>)
   \<and> (\<not> l_has_curl l' \<and> exit_of (start_main c' e' l' f') = 0 \<longrightarrow>
        no_http_probe (trace_of (start_main c' e' l' f'))
        \<and> (\<exists>q. q \<noteq> []
             \<and> (\<exists>j<6. q = fst (find_process_on_port (poll_view l' (1 + j)) (st_port c'))
                   \<and> (\<forall>k<j. fst (find_process_on_port (poll_view l' (1 + k)) (st_port c')) = []))
             \<and> pid_file (files_of (start_main c' e' l' f')) = Some q
             \<and> state_file (files_of (start_main c' e' l' f'))
                 = Some (started_snapshot (now_ts e') (st_host c') (st_port c') (st_mode c') q)))
   \<and> (\<not> l_has_curl l' \<and> j' < 6
        \<and> fst (find_process_on_port (poll_view l' (1 + j')) (st_port c')) \<noteq> []
        \<and> (\<forall>k<j'. fst (find_process_on_port (poll_view l' (1 + k)) (st_port c')) = []) \<longrightarrow>
        exit_of (start_server c' e' l' f') = 0
      \<and> no_http_probe (trace_of (start_server c' e' l' f'))
      \<and> files_of (start_server c' e' l' f')
          = f'\<lparr>pid_file := Some (fst (find_process_on_port (poll_view l' (1 + j')) (st_port c'))),
                state_file := Some (started_snapshot (now_ts e') (st_host c') (st_port c') (st_mode c')
                                      (fst (find_process_on_port (poll_view l' (1 + j')) (st_port c'))))\<rparr>)
   \<and> port_status (started_snapshot ts h p m q') = PS_listening
   \<and> http_status (started_snapshot ts h p m q') = HS_healthy
   \<and> healthy (started_snapshot ts h p m q') = True"
proof -
  have c1: "no_http_probe (trace_of (restart_main c e l f))"
    by (rule restart_main_no_http)
  have c2: "\<not> rs_dry_run c \<and> exit_of (restart_main c e l f) = 0 \<longrightarrow>
        (\<exists>q. q \<noteq> []
           \<and> (\<exists>j<10. q = fst (find_process_on_port (poll_view l (1 + j)) (rs_port c))
                 \<and> (\<forall>k<j. fst (find_process_on_port (poll_view l (1 + k)) (rs_port c)) = []))
           \<and> state_file (files_of (restart_main c e l f))
               = Some (started_snapshot (now_ts e) ''localhost'' (rs_port c) (rs_mode c) q))"
  proof
    assume a: "\<not> rs_dry_run c \<and> exit_of (restart_main c e l f) = 0"
    from a have d: "\<not> rs_dry_run c" and x: "exit_of (restart_main c e l f) = 0"
      by simp_all
    from restart_main_ok [OF d x] obtain q where
      q: "fst (restart_wait_loop l (rs_port c) 1 10) = Some q"
         "state_file (files_of (restart_main c e l f))
            = Some (started_snapshot (now_ts e) ''localhost'' (rs_port c) (rs_mode c) q)"
      by auto
    from restart_wait_loop_Some [OF q(1)] q(2)
    show "\<exists>q. q \<noteq> []
             \<and> (\<exists>j<10. q = fst (find_process_on_port (poll_view l (1 + j)) (rs_port c))
                   \<and> (\<forall>k<j. fst (find_process_on_port (poll_view l (1 + k)) (rs_port c)) = []))
             \<and> state_file (files_of (restart_main c e l f))
                 = Some (started_snapshot (now_ts e) ''localhost'' (rs_port c) (rs_mode c) q)"
      by blast
  qed
  have c3: "\<not> rs_dry_run c \<and> (rs_mode c = Preview \<longrightarrow> build_ok l) \<and> j < 10
        \<and> (\<forall>k\<le>j. poll_spawn_alive l (1 + k))
        \<and> fst (find_process_on_port (poll_view l (1 + j)) (rs_port c)) \<noteq> []
        \<and> (\<forall>k<j. fst (find_process_on_port (poll_view l (1 + k)) (rs_port c)) = []) \<longrightarrow>
        exit_of (restart_start_server c e l f) = 0
      \<and> no_http_probe (trace_of (restart_start_server c e l f))
      \<and> files_of (restart_start_server c e l f)
          = f\<lparr>state_file := Some (started_snapshot (now_ts e) ''localhost'' (rs_port c) (rs_mode c)
                                    (fst (find_process_on_port (poll_view l (1 + j)) (rs_port c))))\<rparr>"
  proof
    assume a: "\<not> rs_dry_run c \<and> (rs_mode c = Preview \<longrightarrow> build_ok l) \<and> j < 10
        \<and> (\<forall>k\<le>j. poll_spawn_alive l (1 + k))
        \<and> fst (find_process_on_port (poll_view l (1 + j)) (rs_port c)) \<noteq> []
        \<and> (\<forall>k<j. fst (find_process_on_port (poll_view l (1 + k)) (rs_port c)) = [])"
    from a have a1: "\<not> rs_dry_run c" and a2: "rs_mode c = Preview \<longrightarrow> build_ok l"
      and a3: "j < 10" and a4: "\<forall>k\<le>j. poll_spawn_alive l (1 + k)"
      and a5: "fst (find_process_on_port (poll_view l (1 + j)) (rs_port c)) \<noteq> []"
      and a6: "\<forall>k<j. fst (find_process_on_port (poll_view l (1 + k)) (rs_port c)) = []"
      by simp_all
    have r: "fst (restart_wait_loop l (rs_port c) 1 10)
               = Some (fst (find_process_on_port (poll_view l (1 + j)) (rs_port c)))"
      by (rule restart_wait_loop_found [OF a3 a4 a5 a6])
    from restart_start_server_found [OF a1 a2 r, of e f]
         restart_start_server_no_http [of c e l f]
    show "exit_of (restart_start_server c e l f) = 0
      \<and> no_http_probe (trace_of (restart_start_server c e l f))
      \<and> files_of (restart_start_server c e l f)
          = f\<lparr>state_file := Some (started_snapshot (now_ts e) ''localhost'' (rs_port c) (rs_mode c)
                                    (fst (find_process_on_port (poll_view l (1 + j)) (rs_port c))))\<rparr>"
      by blast
  qed
  have c4: "\<not> l_has_curl l' \<and> exit_of (start_main c' e' l' f') = 0 \<longrightarrow>
        no_http_probe (trace_of (start_main c' e' l' f'))
        \<and> (\<exists>q. q \<noteq> []
             \<and> (\<exists>j<6. q = fst (find_process_on_port (poll_view l' (1 + j)) (st_port c'))
                   \<and> (\<forall>k<j. fst (find_process_on_port (poll_view l' (1 + k)) (st_port c')) = []))
             \<and> pid_file (files_of (start_main c' e' l' f')) = Some q
             \<and> state_file (files_of (start_main c' e' l' f'))
                 = Some (started_snapshot (now_ts e') (st_host c') (st_port c') (st_mode c') q))"
  proof
    assume a: "\<not> l_has_curl l' \<and> exit_of (start_main c' e' l' f') = 0"
    then have nc: "\<not> l_has_curl l'" by simp
    obtain r0 f0 where al: "acquire_lock e' f' = (r0, f0)" by (cases "acquire_lock e' f'")
    from a have ld: "logs_dir f'"
      by (cases "logs_dir f'") (simp_all add: start_main_def exit_of_def)
    from a al ld have r0: "r0 = 0"
      by (cases r0) (simp_all add: start_main_def exit_of_def)
    from al r0 ld have m: "start_main c' e' l' f' = start_main_locked c' e' l' f0"
      by (simp add: start_main_def)
    from start_main_locked_no_curl [OF nc, of c' e' f0] m
    have nh: "no_http_probe (trace_of (start_main c' e' l' f'))" by simp
    from a m have "exit_of (start_main_locked c' e' l' f0) = 0" by simp
    from start_main_locked_ok [OF this] obtain q where
      q: "fst (wait_for_healthy l' (st_port c')) = Some q"
         "pid_file (files_of (start_main_locked c' e' l' f0)) = Some q"
         "state_file (files_of (start_main_locked c' e' l' f0))
            = Some (started_snapshot (now_ts e') (st_host c') (st_port c') (st_mode c') q)"
      by blast
    from q(1) have "fst (wait_for_healthy_loop l' (st_port c') 1 6) = Some q"
      by (simp add: wait_for_healthy_def)
    from wait_for_healthy_loop_Some [OF nc this]
    have tie: "q \<noteq> [] \<and> (\<exists>j<6. q = fst (find_process_on_port (poll_view l' (1 + j)) (st_port c'))
                   \<and> (\<forall>k<j. fst (find_process_on_port (poll_view l' (1 + k)) (st_port c')) = []))" .
    from q(2,3) m
    have fs: "pid_file (files_of (start_main c' e' l' f')) = Some q
            \<and> state_file (files_of (start_main c' e' l' f'))
                = Some (started_snapshot (now_ts e') (st_host c') (st_port c') (st_mode c') q)"
      by simp
    from nh tie fs
    show "no_http_probe (trace_of (start_main c' e' l' f'))
        \<and> (\<exists>q. q \<noteq> []
             \<and> (\<exists>j<6. q = fst (find_process_on_port (poll_view l' (1 + j)) (st_port c'))
                   \<and> (\<forall>k<j. fst (find_process_on_port (poll_view l' (1 + k)) (st_port c')) = []))
             \<and> pid_file (files_of (start_main c' e' l' f')) = Some q
             \<and> state_file (files_of (start_main c' e' l' f'))
                 = Some (started_snapshot (now_ts e') (st_host c') (st_port c') (st_mode c') q))"
      by blast
  qed
  have c5: "\<not> l_has_curl l' \<and> j' < 6
        \<and> fst (find_process_on_port (poll_view l' (1 + j')) (st_port c')) \<noteq> []
        \<and> (\<forall>k<j'. fst (find_process_on_port (poll_view l' (1 + k)) (st_port c')) = []) \<longrightarrow>
        exit_of (start_server c' e' l' f') = 0
      \<and> no_http_probe (trace_of (start_server c' e' l' f'))
      \<and> files_of (start_server c' e' l' f')
          = f'\<lparr>pid_file := Some (fst (find_process_on_port (poll_view l' (1 + j')) (st_port c'))),
                state_file := Some (started_snapshot (now_ts e') (st_host c') (st_port c') (st_mode c')
                                      (fst (find_process_on_port (poll_view l' (1 + j')) (st_port c'))))\<rparr>"
  proof
    assume a: "\<not> l_has_curl l' \<and> j' < 6
        \<and> fst (find_process_on_port (poll_view l' (1 + j')) (st_port c')) \<noteq> []
        \<and> (\<forall>k<j'. fst (find_process_on_port (poll_view l' (1 + k)) (st_port c')) = [])"
    from a have nc: "\<not> l_has_curl l'" and a2: "j' < 6"
      and a3: "fst (find_process_on_port (poll_view l' (1 + j')) (st_port c')) \<noteq> []"
      and a4: "\<forall>k<j'. fst (find_process_on_port (poll_view l' (1 + k)) (st_port c')) = []"
      by simp_all
    have "fst (wait_for_healthy_loop l' (st_port c') 1 6)
               = Some (fst (find_process_on_port (poll_view l' (1 + j')) (st_port c')))"
      by (rule wait_for_healthy_loop_found [OF nc a2 a3 a4])
    then have r: "fst (wait_for_healthy l' (st_port c'))
               = Some (fst (find_process_on_port (poll_view l' (1 + j')) (st_port c')))"
      by (simp add: wait_for_healthy_def)
    from start_server_found [OF r, of e' f'] start_server_no_curl [OF nc, of c' e' f']
    show "exit_of (start_server c' e' l' f') = 0
      \<and> no_http_probe (trace_of (start_server c' e' l' f'))
      \<and> files_of (start_server c' e' l' f')
          = f'\<lparr>pid_file := Some (fst (find_process_on_port (poll_view l' (1 + j')) (st_port c'))),
                state_file := Some (started_snapshot (now_ts e') (st_host c') (st_port c') (st_mode c')
                                      (fst (find_process_on_port (poll_view l' (1 + j')) (st_port c'))))\<rparr>"
      by blast
  qed
  have c6: "port_status (started_snapshot ts h p m q') = PS_listening"
           "http_status (started_snapshot ts h p m q') = HS_healthy"
           "healthy (started_snapshot ts h p m q') = True"
    by (simp_all add: started_snapshot_def)
  show ?thesis
    by (intro conjI c1 c2 c3 c4 c5 c6)
qed

text \<open>
  The two runs on the concrete host: nothing on the port beforehand, the server listens
  as PID 4242 from the second poll on, and the only commands are the port lookups and
  the launch.
\<close>

lemmas concrete_defs =
  restart_cfg_dev_def start_cfg_dev_def quiet_env_def launch_no_curl_def files_after_crash_def
  listening_view_def no_socket_view_def

lemma restart_main_concrete: "restart_main restart_cfg_dev quiet_env launch_no_curl files_after_crash
   = (0, files_after_crash\<lparr>state_file := Some (started_snapshot ''2026-02-15T12:00:00Z'' ''localhost'' 4173 Dev ''4242'')\<rparr>,
      [Cmd_lsof_t, Cmd_launch Dev, Cmd_lsof_t, Cmd_lsof_t])"
  by (simp add: restart_main_def restart_start_server_def find_process_on_port_def first_line_def
        concrete_defs eval_nat_numeral Let_def)

lemma start_main_concrete: "start_main start_cfg_dev quiet_env launch_no_curl files_after_crash
   = (0, files_after_crash\<lparr>pid_file := Some ''4242'', state_file := Some (started_snapshot ''2026-02-15T12:00:00Z'' ''0.0.0.0'' 4173 Dev ''4242'')\<rparr>,
      [Cmd_lsof_t, Cmd_launch Dev, Cmd_lsof_t, Cmd_lsof_t])"
  by (simp add: start_main_def start_main_locked_def acquire_lock_def stop_existing_def run_build_def
        start_server_def wait_for_healthy_def release_lock_def find_process_on_port_def first_line_def
        concrete_defs eval_nat_numeral Let_def)

lemma second_poll_concrete:
  "fst (find_process_on_port (poll_view launch_no_curl 1) 4173) = []"
  "fst (find_process_on_port (poll_view launch_no_curl 2) 4173) = ''4242''"
  "fst (find_process_on_port (poll_view launch_no_curl (Suc 0)) 4173) = []"
  "fst (find_process_on_port (poll_view launch_no_curl (Suc (Suc 0))) 4173) = ''4242''"
  by (simp_all add: find_process_on_port_def first_line_def concrete_defs)

theorem C10_healthy_without_http_probe_witness:
  "\<not> rs_dry_run restart_cfg_dev
   \<and> exit_of (restart_main restart_cfg_dev quiet_env launch_no_curl files_after_crash) = 0
   \<and> no_http_probe (trace_of (restart_main restart_cfg_dev quiet_env launch_no_curl files_after_crash))
   \<and> state_file (files_of (restart_main restart_cfg_dev quiet_env launch_no_curl files_after_crash))
       = Some (started_snapshot ''2026-02-15T12:00:00Z'' ''localhost'' 4173 Dev ''4242'')
   \<and> \<not> l_has_curl launch_no_curl
   \<and> exit_of (start_main start_cfg_dev quiet_env launch_no_curl files_after_crash) = 0
   \<and> no_http_probe (trace_of (start_main start_cfg_dev quiet_env launch_no_curl files_after_crash))
   \<and> state_file (files_of (start_main start_cfg_dev quiet_env launch_no_curl files_after_crash))
       = Some (started_snapshot ''2026-02-15T12:00:00Z'' ''0.0.0.0'' 4173 Dev ''4242'')
   \<and> http_status (started_snapshot ''2026-02-15T12:00:00Z'' ''0.0.0.0'' 4173 Dev ''4242'') = HS_healthy
   \<and> fst (find_process_on_port (poll_view launch_no_curl 1) 4173) = []
   \<and> fst (find_process_on_port (poll_view launch_no_curl 2) 4173) = ''4242''
   \<and> poll_spawn_alive launch_no_curl 1 \<and> poll_spawn_alive launch_no_curl 2
   \<and> exit_of (restart_start_server restart_cfg_dev quiet_env launch_no_curl files_after_crash) = 0
   \<and> state_file (files_of (restart_start_server restart_cfg_dev quiet_env launch_no_curl
                               files_after_crash))
       = Some (started_snapshot ''2026-02-15T12:00:00Z'' ''localhost'' 4173 Dev ''4242'')
   \<and> exit_of (start_server start_cfg_dev quiet_env launch_no_curl files_after_crash) = 0
   \<and> no_http_probe (trace_of (start_server start_cfg_dev quiet_env launch_no_curl files_after_crash))
   \<and> pid_file (files_of (start_server start_cfg_dev quiet_env launch_no_curl files_after_crash))
       = Some ''4242''
   \<and> state_file (files_of (start_server start_cfg_dev quiet_env launch_no_curl files_after_crash))
       = Some (started_snapshot ''2026-02-15T12:00:00Z'' ''0.0.0.0'' 4173 Dev ''4242'')"
proof -
  have h1: "\<not> rs_dry_run restart_cfg_dev
            \<and> exit_of (restart_main restart_cfg_dev quiet_env launch_no_curl files_after_crash) = 0"
    by (simp add: restart_main_concrete exit_of_def) (simp add: restart_cfg_dev_def)
  have h2: "\<not> l_has_curl launch_no_curl
            \<and> exit_of (start_main start_cfg_dev quiet_env launch_no_curl files_after_crash) = 0"
    by (simp add: start_main_concrete exit_of_def) (simp add: launch_no_curl_def)
  have pr: "rs_port restart_cfg_dev = 4173" "st_port start_cfg_dev = 4173"
           "rs_mode restart_cfg_dev = Dev" "st_mode start_cfg_dev = Dev"
           "st_host start_cfg_dev = ''0.0.0.0''" "now_ts quiet_env = ''2026-02-15T12:00:00Z''"
    by (simp_all add: restart_cfg_dev_def start_cfg_dev_def quiet_env_def)
  have al: "poll_spawn_alive launch_no_curl 1" "poll_spawn_alive launch_no_curl 2"
           "\<forall>k\<le>1. poll_spawn_alive launch_no_curl (1 + k)"
    by (simp_all add: launch_no_curl_def)
  have e1: "\<forall>k<1. fst (find_process_on_port (poll_view launch_no_curl (1 + k)) 4173) = []"
    by (simp add: second_poll_concrete)
  have f2: "fst (find_process_on_port (poll_view launch_no_curl (1 + 1)) 4173) = ''4242''"
    by (simp add: second_poll_concrete)
  have h3: "\<not> rs_dry_run restart_cfg_dev \<and> (rs_mode restart_cfg_dev = Preview \<longrightarrow> build_ok launch_no_curl)
        \<and> (1::nat) < 10
        \<and> (\<forall>k\<le>1. poll_spawn_alive launch_no_curl (1 + k))
        \<and> fst (find_process_on_port (poll_view launch_no_curl (1 + 1)) (rs_port restart_cfg_dev)) \<noteq> []
        \<and> (\<forall>k<1. fst (find_process_on_port (poll_view launch_no_curl (1 + k)) (rs_port restart_cfg_dev)) = [])"
    using h1 al(3) e1 f2 by (simp add: pr)
  have h4: "\<not> l_has_curl launch_no_curl \<and> (1::nat) < 6
        \<and> fst (find_process_on_port (poll_view launch_no_curl (1 + 1)) (st_port start_cfg_dev)) \<noteq> []
        \<and> (\<forall>k<1. fst (find_process_on_port (poll_view launch_no_curl (1 + k)) (st_port start_cfg_dev)) = [])"
    using h2 e1 f2 by (simp add: pr)
  note t = C10_healthy_without_http_probe
             [where c = restart_cfg_dev and e = quiet_env and l = launch_no_curl
                and f = files_after_crash and l' = launch_no_curl and f' = files_after_crash
                and c' = start_cfg_dev and e' = quiet_env
                and ts = "''2026-02-15T12:00:00Z''" and h = "''0.0.0.0''" and p = 4173
                and m = Dev and q' = "''4242''" and j = 1 and j' = 1]
  from t have a: "no_http_probe (trace_of (restart_main restart_cfg_dev quiet_env launch_no_curl files_after_crash))"
    by blast
  from t h2 have b: "no_http_probe (trace_of (start_main start_cfg_dev quiet_env launch_no_curl files_after_crash))"
    by blast
  from t have c: "http_status (started_snapshot ''2026-02-15T12:00:00Z'' ''0.0.0.0'' 4173 Dev ''4242'') = HS_healthy"
    by blast
  from t h3 have d: "exit_of (restart_start_server restart_cfg_dev quiet_env launch_no_curl files_after_crash) = 0
      \<and> files_of (restart_start_server restart_cfg_dev quiet_env launch_no_curl files_after_crash)
          = files_after_crash\<lparr>state_file := Some (started_snapshot (now_ts quiet_env) ''localhost''
              (rs_port restart_cfg_dev) (rs_mode restart_cfg_dev)
              (fst (find_process_on_port (poll_view launch_no_curl (1 + 1)) (rs_port restart_cfg_dev))))\<rparr>"
    by blast
  from t h4 have g: "exit_of (start_server start_cfg_dev quiet_env launch_no_curl files_after_crash) = 0
      \<and> no_http_probe (trace_of (start_server start_cfg_dev quiet_env launch_no_curl files_after_crash))
      \<and> files_of (start_server start_cfg_dev quiet_env launch_no_curl files_after_crash)
          = files_after_crash\<lparr>pid_file := Some (fst (find_process_on_port (poll_view launch_no_curl (1 + 1)) (st_port start_cfg_dev))),
                state_file := Some (started_snapshot (now_ts quiet_env) (st_host start_cfg_dev)
                   (st_port start_cfg_dev) (st_mode start_cfg_dev)
                   (fst (find_process_on_port (poll_view launch_no_curl (1 + 1)) (st_port start_cfg_dev))))\<rparr>"
    by blast
  from d f2 have d': "exit_of (restart_start_server restart_cfg_dev quiet_env launch_no_curl files_after_crash) = 0
      \<and> state_file (files_of (restart_start_server restart_cfg_dev quiet_env launch_no_curl files_after_crash))
          = Some (started_snapshot ''2026-02-15T12:00:00Z'' ''localhost'' 4173 Dev ''4242'')"
    by (simp add: pr)
  from g f2 have g': "exit_of (start_server start_cfg_dev quiet_env launch_no_curl files_after_crash) = 0
      \<and> no_http_probe (trace_of (start_server start_cfg_dev quiet_env launch_no_curl files_after_crash))
      \<and> pid_file (files_of (start_server start_cfg_dev quiet_env launch_no_curl files_after_crash))
          = Some ''4242''
      \<and> state_file (files_of (start_server start_cfg_dev quiet_env launch_no_curl files_after_crash))
          = Some (started_snapshot ''2026-02-15T12:00:00Z'' ''0.0.0.0'' 4173 Dev ''4242'')"
    by (simp add: pr)
  from h1 h2 a b c al(1,2) d' g' show ?thesis
    by (simp add: restart_main_concrete start_main_concrete files_of_def second_poll_concrete)
qed

subsection \<open>deploy-with-rollback.sh: the journal lookup\<close>

lemma find_success_fragments:
  "find is_success_line (replicate n JFragment @ ls) = find is_success_line ls"
  by (induction n) simp_all

lemma get_last_successful_tx_journal_append:
  "get_last_successful_tx (journal_append e tx a st n w) =
     (if st = T_success then (if n \<le> 1 then tx else []) else get_last_successful_tx w)"
  by (cases "journal_file w")
     (simp_all add: get_last_successful_tx_def journal_append_def init_journal_def Let_def
                    find_success_fragments)

lemma get_last_successful_tx_fields [simp]:
  "get_last_successful_tx (w\<lparr>live_dist := d\<rparr>) = get_last_successful_tx w"
  "get_last_successful_tx (w\<lparr>backups := b\<rparr>) = get_last_successful_tx w"
  "get_last_successful_tx (w\<lparr>deploy_lock := l\<rparr>) = get_last_successful_tx w"
  "get_last_successful_tx (w\<lparr>current_state := s\<rparr>) = get_last_successful_tx w"
  "get_last_successful_tx (w\<lparr>journal_dir := j\<rparr>) = get_last_successful_tx w"
  by (simp_all add: get_last_successful_tx_def)

lemma get_last_successful_tx_update_current_state [simp]:
  "get_last_successful_tx (update_current_state e st tx v w) = get_last_successful_tx w"
  by (simp add: update_current_state_def)

lemma ready_loop_trace: "set (snd (ready_loop r i n)) \<subseteq> {Cmd_curl}"
proof (induction n arbitrary: i)
  case 0
  show ?case by simp
next
  case (Suc n)
  obtain b tr where rl: "ready_loop r (Suc i) n = (b, tr)" by (cases "ready_loop r (Suc i) n")
  from Suc [of "Suc i"] rl have "set tr \<subseteq> {Cmd_curl}" by simp
  then show ?case by (simp add: rl)
qed

lemma check_health_trace: "set (snd (check_health e)) \<subseteq> {Cmd_curl, Cmd_health_endpoint}"
proof -
  obtain b tr where rl: "ready_loop (d_ready e) (Suc 0) 6 = (b, tr)"
    by (cases "ready_loop (d_ready e) (Suc 0) 6")
  from ready_loop_trace [of "d_ready e" "Suc 0" 6] rl have "set tr \<subseteq> {Cmd_curl}" by simp
  then show ?thesis by (auto simp add: check_health_def rl)
qed

lemma check_health_no_restore: "Cmd_restore_backup t \<notin> set (snd (check_health e))"
  using check_health_trace [of e] by auto

lemma init_journal_frame [simp]:
  "live_dist (init_journal e w) = live_dist w"
  "backups (init_journal e w) = backups w"
  "deploy_lock (init_journal e w) = deploy_lock w"
  "journal_dir (init_journal e w) = True"
  by (simp_all add: init_journal_def)

lemma journal_append_frame [simp]:
  "live_dist (journal_append e tx a st n w) = live_dist w"
  "backups (journal_append e tx a st n w) = backups w"
  "deploy_lock (journal_append e tx a st n w) = deploy_lock w"
  "journal_dir (journal_append e tx a st n w) = True"
  by (simp_all add: journal_append_def Let_def)

lemma update_current_state_frame [simp]:
  "live_dist (update_current_state e st tx v w) = live_dist w"
  "backups (update_current_state e st tx v w) = backups w"
  "deploy_lock (update_current_state e st tx v w) = deploy_lock w"
  "journal_dir (update_current_state e st tx v w) = journal_dir w"
  "journal_file (update_current_state e st tx v w) = journal_file w"
  "current_state (update_current_state e st tx v w)
     = Some \<lparr> cs_status = st, cs_timestamp = d_now e, cs_tx = Some tx, cs_version = Some v \<rparr>"
  by (simp_all add: update_current_state_def)

lemma journal_append_current_state [simp]:
  "current_state (journal_append e tx a st n w)
     = Some (case current_state w of
               None \<Rightarrow> \<lparr> cs_status = CS_initialized, cs_timestamp = d_now e,
                            cs_tx = None, cs_version = None \<rparr>
             | Some c \<Rightarrow> c)"
  by (simp add: journal_append_def init_journal_def Let_def split: option.splits)

text \<open>The backup of the running transaction is there once the backup phase is over.\<close>

lemma backup_phase_last_success:
  "get_last_successful_tx (deploy_backup_phase e w) = (if live_dist w = None then d_tx_id e else [])"
  by (simp add: deploy_backup_phase_def create_backup_def Let_def
                get_last_successful_tx_journal_append)


lemma backup_phase_frame [simp]:
  "live_dist (deploy_backup_phase e w) = live_dist w"
  "map_of (backups (deploy_backup_phase e w)) (d_tx_id e)
     = Some \<lparr> b_mtime = d_mtime e, b_dist = live_dist w \<rparr>"
  "deploy_lock (deploy_backup_phase e w) = deploy_lock w"
  by (simp_all add: deploy_backup_phase_def create_backup_def Let_def)

lemma backup_phase_current_state [simp]:
  "current_state (deploy_backup_phase e w)
     = Some \<lparr> cs_status = CS_deploying, cs_timestamp = d_now e, cs_tx = Some (d_tx_id e),
              cs_version = Some ''unknown'' \<rparr>"
  by (simp add: deploy_backup_phase_def create_backup_def Let_def)

text \<open>
  The internal rollback when the last line with status success is an intact line of
  the running transaction and the backup of that transaction exists.
\<close>

lemma cmd_rollback_internal_own_tx:
  assumes "get_last_successful_tx w = tx" and "tx \<noteq> []"
      and "map_of (backups w) tx = Some b"
  shows "cmd_rollback_internal e tx w =
           (if d_restart_ok e then
              (0, update_current_state e CS_rolled_back tx (d_version e)
                    (journal_append e tx A_rollback T_success 1
                       (w\<lparr>live_dist := d_restart_dist e
                            (case b_dist b of None \<Rightarrow> live_dist w | Some d \<Rightarrow> Some d)\<rparr>)),
               [Cmd_stop_sh, Cmd_restore_backup tx, Cmd_start_sh])
            else
              (1, journal_append e tx A_rollback T_failed 1
                    (w\<lparr>live_dist := d_restart_dist e
                         (case b_dist b of None \<Rightarrow> live_dist w | Some d \<Rightarrow> Some d)\<rparr>),
               [Cmd_stop_sh, Cmd_restore_backup tx, Cmd_start_sh]))"
  using assms
  by (cases "b_dist b") (simp_all add: cmd_rollback_internal_def restore_backup_def Let_def)

lemma cmd_rollback_internal_no_target:
  assumes "get_last_successful_tx w = []"
  shows "cmd_rollback_internal e tx w = (1, journal_append e tx A_rollback T_failed 1 w, [])"
  using assms by (simp add: cmd_rollback_internal_def)

lemma cmd_rollback_internal_restores:
  "Cmd_restore_backup t \<in> set (trace_of (cmd_rollback_internal e tx w))
     \<Longrightarrow> t = get_last_successful_tx w"
  by (auto simp add: cmd_rollback_internal_def trace_of_def Let_def
           split: if_splits prod.splits nat.splits)

lemma check_health_cases:
  obtains tr where "check_health e = (True, tr)" "Cmd_restore_backup t \<notin> set tr"
        | tr where "check_health e = (False, tr)" "Cmd_restore_backup t \<notin> set tr"
proof -
  obtain b tr where c: "check_health e = (b, tr)" by (cases "check_health e")
  from check_health_no_restore [of t e] c have "Cmd_restore_backup t \<notin> set tr" by simp
  with c that show ?thesis by (cases b) auto
qed

text \<open>The world in which the internal rollback starts, and what the rollback then does.\<close>

lemma rollback_after_failure:
  assumes tx: "tx \<noteq> []"
      and bk: "map_of (backups w) tx = Some b"
      and last: "get_last_successful_tx w = tx \<or> get_last_successful_tx w = []"
  shows "(\<forall>t. Cmd_restore_backup t \<in> set (trace_of (cmd_rollback_internal e tx w)) \<longrightarrow> t = tx)
       \<and> (d_restart_ok e \<and> get_last_successful_tx w = tx \<longrightarrow>
             Cmd_restore_backup tx \<in> set (trace_of (cmd_rollback_internal e tx w))
           \<and> current_state (files_of (cmd_rollback_internal e tx w))
               = Some \<lparr> cs_status = CS_rolled_back, cs_timestamp = d_now e, cs_tx = Some tx,
                        cs_version = Some (d_version e) \<rparr>
           \<and> live_dist (files_of (cmd_rollback_internal e tx w))
               = d_restart_dist e (case b_dist b of None \<Rightarrow> live_dist w | Some d \<Rightarrow> Some d))"
proof (cases "get_last_successful_tx w = tx")
  case True
  from cmd_rollback_internal_own_tx [OF True tx bk, of e] show ?thesis
    by (simp add: trace_of_def files_of_def True split: option.splits)
next
  case False
  with last have n: "get_last_successful_tx w = []" by simp
  from cmd_rollback_internal_no_target [OF n, of e tx] False show ?thesis
    by (simp add: trace_of_def)
qed

subsection \<open>deploy-with-rollback.sh: the automatic rollback\<close>

lemma world_after_A_reached:
  "cmd_deploy full_deploy env_A fresh_world
     = (0, world_after_A, [Cmd_npm_build, Cmd_stop_sh, Cmd_start_sh, Cmd_curl, Cmd_curl])"
  by code_simp

lemma last_success_before_B: "get_last_successful_tx world_after_A = ''tx-A''"
  by code_simp

lemma deploy_B_concrete:
  "cmd_deploy full_deploy env_B world_after_A =
     (1, \<lparr> journal_dir = True,
           journal_file = Some
             [JLine ''tx-A'' A_deploy_start T_started True,
              JLine ''tx-A'' A_backup_created T_success False, JFragment,
              JLine ''tx-A'' A_build_start T_started True,
              JLine ''tx-A'' A_build_complete T_success True,
              JLine ''tx-A'' A_server_start T_started True,
              JLine ''tx-A'' A_server_start T_success True,
              JLine ''tx-A'' A_health_check T_success True,
              JLine ''tx-A'' A_deploy_complete T_success True,
              JLine ''tx-B'' A_deploy_start T_started True,
              JLine ''tx-B'' A_backup_created T_success False, JFragment,
              JLine ''tx-B'' A_build_start T_started True,
              JLine ''tx-B'' A_build_complete T_success True,
              JLine ''tx-B'' A_server_start T_started True,
              JLine ''tx-B'' A_server_start T_success True,
              JLine ''tx-B'' A_health_check T_failed True,
              JLine ''tx-B'' A_rollback T_success True],
           current_state = Some \<lparr> cs_status = CS_rolled_back,
                                  cs_timestamp = ''2026-02-15T13:00:00Z'',
                                  cs_tx = Some ''tx-B'', cs_version = Some ''1.0.0'' \<rparr>,
           deploy_lock = None,
           backups = [(''tx-B'', \<lparr> b_mtime = 2000, b_dist = Some 2 \<rparr>),
                      (''tx-A'', \<lparr> b_mtime = 1000, b_dist = Some 1 \<rparr>)],
           live_dist = Some 3 \<rparr>,
      [Cmd_npm_build, Cmd_stop_sh, Cmd_start_sh, Cmd_curl, Cmd_curl, Cmd_curl, Cmd_curl,
       Cmd_curl, Cmd_curl, Cmd_curl, Cmd_stop_sh, Cmd_restore_backup ''tx-B'', Cmd_start_sh])"
  by code_simp

text \<open>
  A deploy with the default options whose server does not start, on the site that
  \<open>tx-A\<close> left (it has a \<open>dist\<close> directory): the last line with status success is
  the spread \<open>backup_created\<close> line of the deploy itself, the lookup returns nothing,
  and the rollback fails without restoring anything.
\<close>

lemma deploy_C_concrete:
  "cmd_deploy default_deploy env_C world_after_A =
     (1, \<lparr> journal_dir = True,
           journal_file = Some
             [JLine ''tx-A'' A_deploy_start T_started True,
              JLine ''tx-A'' A_backup_created T_success False, JFragment,
              JLine ''tx-A'' A_build_start T_started True,
              JLine ''tx-A'' A_build_complete T_success True,
              JLine ''tx-A'' A_server_start T_started True,
              JLine ''tx-A'' A_server_start T_success True,
              JLine ''tx-A'' A_health_check T_success True,
              JLine ''tx-A'' A_deploy_complete T_success True,
              JLine ''tx-C'' A_deploy_start T_started True,
              JLine ''tx-C'' A_backup_created T_success False, JFragment,
              JLine ''tx-C'' A_server_start T_started True,
              JLine ''tx-C'' A_server_start T_failed True,
              JLine ''tx-C'' A_rollback T_failed True],
           current_state = Some \<lparr> cs_status = CS_deploying,
                                  cs_timestamp = ''2026-02-15T14:00:00Z'',
                                  cs_tx = Some ''tx-C'', cs_version = Some ''unknown'' \<rparr>,
           deploy_lock = None,
           backups = [(''tx-C'', \<lparr> b_mtime = 3000, b_dist = Some 2 \<rparr>),
                      (''tx-A'', \<lparr> b_mtime = 1000, b_dist = Some 1 \<rparr>)],
           live_dist = Some 2 \<rparr>,
      [Cmd_stop_sh, Cmd_start_sh])"
  by code_simp

text \<open>
  Claim C1 (the code departs from it). When the server start or the health check of a
  deploy fails, the script exits with 1 and the automatic rollback never reaches a
  transaction that succeeded before the deploy began: the last line with status success
  in the journal is always one that the failing deploy wrote itself, its
  \<open>backup_created\<close> line at the least. Whatever backup is restored is therefore the
  one of the failing deploy. With the default options (no build) on a site that has a
  \<open>dist\<close> directory, a failed server start finds that \<open>backup_created\<close> line spread
  over two physical lines, the lookup returns nothing, nothing is restored, and the
  current state stays at \<open>deploying\<close>. In the other cases, if the restart succeeds,
  the current state becomes \<open>rolled_back\<close> with the transaction id of the failing
  deploy, and the \<open>dist\<close> tree is the one start.sh built after the restore.
\<close>

theorem C1_rollback_never_reaches_prior_success:
  assumes lock: "\<not> deploy_lock_held e w" and dir: "journal_dir w" and tx: "d_tx_id e \<noteq> []"
      and build: "pre_build c \<longrightarrow> d_build_ok e"
      and fail: "\<not> d_start_ok e \<or> (health_check c \<and> \<not> fst (check_health e))"
  shows "exit_of (cmd_deploy c e w) = 1
       \<and> (\<forall>t. Cmd_restore_backup t \<in> set (trace_of (cmd_deploy c e w)) \<longrightarrow> t = d_tx_id e)
       \<and> (\<not> pre_build c \<and> \<not> d_start_ok e \<and> live_dist w \<noteq> None \<longrightarrow>
             trace_of (cmd_deploy c e w) = [Cmd_stop_sh, Cmd_start_sh]
           \<and> current_state (files_of (cmd_deploy c e w))
               = Some \<lparr> cs_status = CS_deploying, cs_timestamp = d_now e,
                        cs_tx = Some (d_tx_id e), cs_version = Some ''unknown'' \<rparr>)
       \<and> (d_restart_ok e \<and> (pre_build c \<or> d_start_ok e \<or> live_dist w = None) \<longrightarrow>
             Cmd_restore_backup (d_tx_id e) \<in> set (trace_of (cmd_deploy c e w))
           \<and> current_state (files_of (cmd_deploy c e w))
               = Some \<lparr> cs_status = CS_rolled_back, cs_timestamp = d_now e,
                        cs_tx = Some (d_tx_id e), cs_version = Some (d_version e) \<rparr>
           \<and> live_dist (files_of (cmd_deploy c e w))
               = d_restart_dist e
                   (case live_dist w of
                      None \<Rightarrow> d_start_dist e (if pre_build c then d_built_dist e else None)
                    | Some d \<Rightarrow> Some d))"
proof -
  define w0 where "w0 = deploy_backup_phase e (w\<lparr>deploy_lock := Some (d_self_pid e)\<rparr>)"
  define w1 where "w1 = (if pre_build c
      then (journal_append e (d_tx_id e) A_build_complete T_success (Suc 0)
              (journal_append e (d_tx_id e) A_build_start T_started (Suc 0) w0))\<lparr>live_dist := d_built_dist e\<rparr>
      else w0)"
  define w2 where "w2 = (journal_append e (d_tx_id e) A_server_start T_started (Suc 0) w1)
                          \<lparr>live_dist := d_start_dist e (live_dist w1)\<rparr>"
  define wr where "wr = (if d_start_ok e
      then journal_append e (d_tx_id e) A_health_check T_failed (Suc 0)
             (journal_append e (d_tx_id e) A_server_start T_success (Suc 0) w2)
      else journal_append e (d_tx_id e) A_server_start T_failed (Suc 0) w2)"
  define b where "b = \<lparr> b_mtime = d_mtime e, b_dist = live_dist w \<rparr>"
  have bk: "map_of (backups wr) (d_tx_id e) = Some b"
    by (simp add: wr_def w2_def w1_def w0_def b_def)
  have last: "get_last_successful_tx wr
                = (if pre_build c \<or> d_start_ok e \<or> live_dist w = None then d_tx_id e else [])"
    by (simp add: wr_def w2_def w1_def w0_def get_last_successful_tx_journal_append
                  backup_phase_last_success)
  have cs: "current_state wr
              = Some \<lparr> cs_status = CS_deploying, cs_timestamp = d_now e,
                       cs_tx = Some (d_tx_id e), cs_version = Some ''unknown'' \<rparr>"
    by (simp add: wr_def w2_def w1_def w0_def)
  obtain hb htr where h: "check_health e = (hb, htr)"
      and hno: "\<And>t. Cmd_restore_backup t \<notin> set htr"
    using check_health_no_restore [of _ e] by (cases "check_health e") auto
  from fail h have hfail: "d_start_ok e \<Longrightarrow> health_check c \<and> \<not> hb" by auto
  have run: "cmd_deploy c e w =
      (1, (files_of (cmd_rollback_internal e (d_tx_id e) wr))\<lparr>deploy_lock := None\<rparr>,
       (if pre_build c then [Cmd_npm_build] else []) @ [Cmd_stop_sh, Cmd_start_sh]
         @ (if d_start_ok e then htr else []) @ trace_of (cmd_rollback_internal e (d_tx_id e) wr))"
    using lock dir build hfail
    by (cases "d_start_ok e"; cases "pre_build c")
       (simp_all add: cmd_deploy_def deploy_build_phase_def deploy_start_phase_def
                      deploy_health_phase_def Let_def h split_beta files_of_def trace_of_def
                      wr_def w2_def w1_def w0_def)
  from last have l2: "get_last_successful_tx wr = d_tx_id e \<or> get_last_successful_tx wr = []"
    by simp
  note rb = rollback_after_failure [OF tx bk l2, of e]
  have tr: "trace_of (cmd_deploy c e w) =
       (if pre_build c then [Cmd_npm_build] else []) @ [Cmd_stop_sh, Cmd_start_sh]
         @ (if d_start_ok e then htr else []) @ trace_of (cmd_rollback_internal e (d_tx_id e) wr)"
    by (simp add: run trace_of_def)
  have fl: "files_of (cmd_deploy c e w)
              = (files_of (cmd_rollback_internal e (d_tx_id e) wr))\<lparr>deploy_lock := None\<rparr>"
    by (simp add: run files_of_def)
  have ex: "exit_of (cmd_deploy c e w) = 1"
    by (simp add: run exit_of_def)
  have lw: "live_dist wr = d_start_dist e (if pre_build c then d_built_dist e else live_dist w)"
    by (simp add: wr_def w2_def w1_def w0_def)
  have own: "\<forall>t. Cmd_restore_backup t \<in> set (trace_of (cmd_deploy c e w)) \<longrightarrow> t = d_tx_id e"
    using rb hno by (auto simp add: tr split: if_splits)
  have none: "\<not> pre_build c \<and> \<not> d_start_ok e \<and> live_dist w \<noteq> None \<longrightarrow>
             trace_of (cmd_deploy c e w) = [Cmd_stop_sh, Cmd_start_sh]
           \<and> current_state (files_of (cmd_deploy c e w))
               = Some \<lparr> cs_status = CS_deploying, cs_timestamp = d_now e,
                        cs_tx = Some (d_tx_id e), cs_version = Some ''unknown'' \<rparr>"
  proof
    assume a: "\<not> pre_build c \<and> \<not> d_start_ok e \<and> live_dist w \<noteq> None"
    with last have "get_last_successful_tx wr = []" by simp
    from cmd_rollback_internal_no_target [OF this, of e "d_tx_id e"]
    have t0: "trace_of (cmd_rollback_internal e (d_tx_id e) wr) = []"
     and f0: "files_of (cmd_rollback_internal e (d_tx_id e) wr)
                = journal_append e (d_tx_id e) A_rollback T_failed 1 wr"
      by (simp_all add: trace_of_def files_of_def)
    from a cs
    show "trace_of (cmd_deploy c e w) = [Cmd_stop_sh, Cmd_start_sh]
           \<and> current_state (files_of (cmd_deploy c e w))
               = Some \<lparr> cs_status = CS_deploying, cs_timestamp = d_now e,
                        cs_tx = Some (d_tx_id e), cs_version = Some ''unknown'' \<rparr>"
      by (simp add: tr fl t0 f0)
  qed
  have rolled: "d_restart_ok e \<and> (pre_build c \<or> d_start_ok e \<or> live_dist w = None) \<longrightarrow>
             Cmd_restore_backup (d_tx_id e) \<in> set (trace_of (cmd_deploy c e w))
           \<and> current_state (files_of (cmd_deploy c e w))
               = Some \<lparr> cs_status = CS_rolled_back, cs_timestamp = d_now e,
                        cs_tx = Some (d_tx_id e), cs_version = Some (d_version e) \<rparr>
           \<and> live_dist (files_of (cmd_deploy c e w))
               = d_restart_dist e
                   (case live_dist w of
                      None \<Rightarrow> d_start_dist e (if pre_build c then d_built_dist e else None)
                    | Some d \<Rightarrow> Some d)"
    using rb last by (auto simp add: tr fl b_def lw split: if_splits option.splits)
  from ex own none rolled show ?thesis by blast
qed

theorem C1_rollback_never_reaches_prior_success_witness:
  "get_last_successful_tx world_after_A = ''tx-A''
   \<and> map_of (backups world_after_A) ''tx-A'' = Some \<lparr> b_mtime = 1000, b_dist = Some 1 \<rparr>
   \<and> \<not> deploy_lock_held env_C world_after_A \<and> journal_dir world_after_A
   \<and> \<not> pre_build default_deploy \<and> \<not> d_start_ok env_C \<and> live_dist world_after_A \<noteq> None
   \<and> exit_of (cmd_deploy default_deploy env_C world_after_A) = 1
   \<and> trace_of (cmd_deploy default_deploy env_C world_after_A) = [Cmd_stop_sh, Cmd_start_sh]
   \<and> current_state (files_of (cmd_deploy default_deploy env_C world_after_A))
       = Some \<lparr> cs_status = CS_deploying, cs_timestamp = d_now env_C,
                cs_tx = Some (d_tx_id env_C), cs_version = Some ''unknown'' \<rparr>
   \<and> d_start_ok env_B \<and> health_check full_deploy \<and> \<not> fst (check_health env_B)
   \<and> d_restart_ok env_B
   \<and> exit_of (cmd_deploy full_deploy env_B world_after_A) = 1
   \<and> Cmd_restore_backup ''tx-B'' \<in> set (trace_of (cmd_deploy full_deploy env_B world_after_A))
   \<and> Cmd_restore_backup ''tx-A'' \<notin> set (trace_of (cmd_deploy full_deploy env_B world_after_A))
   \<and> current_state (files_of (cmd_deploy full_deploy env_B world_after_A))
       = Some \<lparr> cs_status = CS_rolled_back, cs_timestamp = d_now env_B,
                cs_tx = Some ''tx-B'', cs_version = Some (d_version env_B) \<rparr>"
proof -
  have p1: "get_last_successful_tx world_after_A = ''tx-A''" by (rule last_success_before_B)
  have p2: "map_of (backups world_after_A) ''tx-A'' = Some \<lparr> b_mtime = 1000, b_dist = Some 1 \<rparr>"
    by (simp add: world_after_A_def)
  have h1: "\<not> deploy_lock_held env_C world_after_A" "\<not> deploy_lock_held env_B world_after_A"
    by (simp_all add: deploy_lock_held_def world_after_A_def)
  have h2: "journal_dir world_after_A" by (simp add: world_after_A_def)
  have h3: "d_tx_id env_C \<noteq> []" "d_tx_id env_B = ''tx-B''" "d_tx_id env_B \<noteq> []"
    by (simp_all add: env_C_def env_B_def env_n_def)
  have c4: "pre_build default_deploy \<longrightarrow> d_build_ok env_C"
    by (simp add: default_deploy_def)
  have b4: "pre_build full_deploy \<longrightarrow> d_build_ok env_B" by (simp add: env_B_def)
  have c5: "\<not> d_start_ok env_C \<or> (health_check default_deploy \<and> \<not> fst (check_health env_C))"
    by (simp add: env_C_def)
  have nh: "\<not> fst (check_health env_B)" by code_simp
  have hc: "health_check full_deploy" "pre_build full_deploy" by (simp_all add: full_deploy_def)
  have ok: "d_start_ok env_B" "d_restart_ok env_B" by (simp_all add: env_B_def)
  have b5: "\<not> d_start_ok env_B \<or> (health_check full_deploy \<and> \<not> fst (check_health env_B))"
    using nh hc by simp
  have cc: "\<not> pre_build default_deploy \<and> \<not> d_start_ok env_C \<and> live_dist world_after_A \<noteq> None"
    by (simp add: default_deploy_def env_C_def world_after_A_def)
  note tC = C1_rollback_never_reaches_prior_success [OF h1(1) h2 h3(1) c4 c5]
  note tB = C1_rollback_never_reaches_prior_success [OF h1(2) h2 h3(3) b4 b5]
  from tC cc have rC: "exit_of (cmd_deploy default_deploy env_C world_after_A) = 1
     \<and> trace_of (cmd_deploy default_deploy env_C world_after_A) = [Cmd_stop_sh, Cmd_start_sh]
     \<and> current_state (files_of (cmd_deploy default_deploy env_C world_after_A))
         = Some \<lparr> cs_status = CS_deploying, cs_timestamp = d_now env_C,
                  cs_tx = Some (d_tx_id env_C), cs_version = Some ''unknown'' \<rparr>"
    by blast
  from tB ok hc have rB: "exit_of (cmd_deploy full_deploy env_B world_after_A) = 1
     \<and> Cmd_restore_backup (d_tx_id env_B) \<in> set (trace_of (cmd_deploy full_deploy env_B world_after_A))
     \<and> current_state (files_of (cmd_deploy full_deploy env_B world_after_A))
         = Some \<lparr> cs_status = CS_rolled_back, cs_timestamp = d_now env_B,
                  cs_tx = Some (d_tx_id env_B), cs_version = Some (d_version env_B) \<rparr>"
    by blast
  from tB have "Cmd_restore_backup ''tx-A'' \<in> set (trace_of (cmd_deploy full_deploy env_B world_after_A))
                  \<longrightarrow> ''tx-A'' = d_tx_id env_B"
    by blast
  then have nA: "Cmd_restore_backup ''tx-A'' \<notin> set (trace_of (cmd_deploy full_deploy env_B world_after_A))"
    by (auto simp add: h3(2))
  from p1 p2 h1 h2 cc rC ok hc nh rB nA show ?thesis
    by (simp add: h3(2))
qed

subsection \<open>deploy-with-rollback.sh: the lock\<close>

lemma rollback_under_lock_concrete:
  "cmd_rollback rollback_default env_R world_deploying =
     (0, \<lparr> journal_dir = True,
           journal_file = Some
             [JLine ''tx-A'' A_deploy_start T_started True,
              JLine ''tx-A'' A_backup_created T_success False, JFragment,
              JLine ''tx-A'' A_build_start T_started True,
              JLine ''tx-A'' A_build_complete T_success True,
              JLine ''tx-A'' A_server_start T_started True,
              JLine ''tx-A'' A_server_start T_success True,
              JLine ''tx-A'' A_health_check T_success True,
              JLine ''tx-A'' A_deploy_complete T_success True,
              JLine ''tx-R'' A_manual_rollback T_started True,
              JLine ''tx-R'' A_manual_rollback T_success True],
           current_state = Some \<lparr> cs_status = CS_rolled_back,
                                  cs_timestamp = ''2026-02-15T13:00:00Z'',
                                  cs_tx = Some ''tx-A'', cs_version = Some ''1.0.0'' \<rparr>,
           deploy_lock = Some ''600'',
           backups = [(''tx-A'', \<lparr> b_mtime = 1000, b_dist = Some 1 \<rparr>)],
           live_dist = Some 3 \<rparr>,
      [Cmd_stop_sh, Cmd_restore_backup ''tx-A'', Cmd_start_sh, Cmd_curl, Cmd_curl])"
  by code_simp

lemma cmd_deploy_lock_held:
  "deploy_lock_held e w \<Longrightarrow> cmd_deploy c e w = (1, w, [])"
  by (simp add: cmd_deploy_def)

text \<open>
  Claim C5 (the code departs from it). While a deploy, process 600, holds the lock,
  a second deploy returns 1 and changes nothing, but \<open>rollback\<close> runs to the end: it
  appends to the journal, stops the server, restores the backup of \<open>tx-A\<close>, starts the
  server (start.sh builds \<open>dist\<close> anew, here the tree 3), and rewrites the current
  state. The lock file is neither read nor written.
\<close>

theorem C5_manual_rollback_ignores_lock:
  "deploy_lock_held env_R world_deploying
   \<and> cmd_deploy full_deploy env_R world_deploying = (1, world_deploying, [])
   \<and> exit_of (cmd_rollback rollback_default env_R world_deploying) = 0
   \<and> trace_of (cmd_rollback rollback_default env_R world_deploying)
       = [Cmd_stop_sh, Cmd_restore_backup ''tx-A'', Cmd_start_sh, Cmd_curl, Cmd_curl]
   \<and> journal_file (files_of (cmd_rollback rollback_default env_R world_deploying))
       \<noteq> journal_file world_deploying
   \<and> current_state (files_of (cmd_rollback rollback_default env_R world_deploying))
       = Some \<lparr> cs_status = CS_rolled_back, cs_timestamp = ''2026-02-15T13:00:00Z'',
                cs_tx = Some ''tx-A'', cs_version = Some ''1.0.0'' \<rparr>
   \<and> live_dist (files_of (cmd_rollback rollback_default env_R world_deploying)) = Some 3
   \<and> live_dist world_deploying = Some 2
   \<and> deploy_lock (files_of (cmd_rollback rollback_default env_R world_deploying)) = Some ''600''"
proof -
  have held: "deploy_lock_held env_R world_deploying"
    by (simp add: deploy_lock_held_def world_deploying_def env_R_def)
  have w: "journal_file world_deploying = journal_file world_after_A"
          "live_dist world_deploying = Some 2"
    by (simp_all add: world_deploying_def world_after_A_def)
  show ?thesis
    using held w
    by (simp add: cmd_deploy_lock_held rollback_under_lock_concrete exit_of_def trace_of_def
                  files_of_def world_after_A_def)
qed

subsection \<open>deploy-with-rollback.sh: backup retention\<close>

lemma ls_t_key: "ls_t bs = map fst (sort_key backup_key bs)"
  by (simp add: ls_t_def)

lemma prune_sorted:
  "sort_key backup_key (prune_backups bs)
     = filter (\<lambda>x. fst x \<notin> set (drop 5 (ls_t bs))) (sort_key backup_key bs)"
  by (simp add: prune_backups_def filter_sort)

lemma filter_drop_names:
  "filter (\<lambda>x. fst x \<notin> set (drop n (map fst ss))) (drop n ss) = []"
  by (auto simp add: filter_empty_conv drop_map)

lemma prune_length: "length (prune_backups bs) \<le> 5"
proof -
  let ?ss = "sort_key backup_key bs"
  let ?P = "\<lambda>x. fst x \<notin> set (drop 5 (ls_t bs))"
  have "length (prune_backups bs) = length (sort_key backup_key (prune_backups bs))"
    by simp
  also have "\<dots> = length (filter ?P ?ss)"
    by (simp add: prune_sorted)
  also have "filter ?P ?ss = filter ?P (take 5 ?ss) @ filter ?P (drop 5 ?ss)"
    by (metis append_take_drop_id filter_append)
  also have "length (filter ?P (take 5 ?ss) @ filter ?P (drop 5 ?ss)) = length (filter ?P (take 5 ?ss))"
    using filter_drop_names [of 5 ?ss] by (simp add: ls_t_key)
  also have "\<dots> \<le> length (take 5 ?ss)" by (rule length_filter_le)
  also have "\<dots> \<le> 5" by simp
  finally show ?thesis .
qed

lemma prune_keeps_newest:
  assumes "distinct (map fst bs)"
  shows "sort_key backup_key (prune_backups bs) = take 5 (sort_key backup_key bs)"
proof -
  let ?ss = "sort_key backup_key bs"
  let ?P = "\<lambda>x. fst x \<notin> set (drop 5 (ls_t bs))"
  have d: "distinct (map fst ?ss)"
    using assms by (metis distinct_map distinct_sort set_sort inj_on_def)
  have "distinct (take 5 (map fst ?ss) @ drop 5 (map fst ?ss))"
    using d by simp
  then have disj: "set (take 5 (map fst ?ss)) \<inter> set (drop 5 (map fst ?ss)) = {}"
    by (simp only: distinct_append)
  have keep: "filter ?P (take 5 ?ss) = take 5 ?ss"
  proof (rule filter_True, rule ballI)
    fix x assume "x \<in> set (take 5 ?ss)"
    then have "fst x \<in> set (take 5 (map fst ?ss))" by (simp add: take_map)
    with disj show "fst x \<notin> set (drop 5 (ls_t bs))" by (auto simp add: ls_t_key)
  qed
  have "sort_key backup_key (prune_backups bs) = filter ?P ?ss"
    by (simp add: prune_sorted)
  also have "\<dots> = filter ?P (take 5 ?ss) @ filter ?P (drop 5 ?ss)"
    by (metis append_take_drop_id filter_append)
  also have "\<dots> = take 5 ?ss"
    using filter_drop_names [of 5 ?ss] keep by (simp add: ls_t_key)
  finally show ?thesis .
qed

lemma prune_ls_t:
  "distinct (map fst bs) \<Longrightarrow> ls_t (prune_backups bs) = take 5 (ls_t bs)"
  by (simp add: ls_t_key prune_keeps_newest take_map)

lemma prune_subset: "set (prune_backups bs) \<subseteq> set bs"
  by (auto simp add: prune_backups_def)

lemma prune_distinct: "distinct (map fst bs) \<Longrightarrow> distinct (map fst (prune_backups bs))"
  by (simp add: prune_backups_def distinct_map_filter)

lemma prune_removes_older:
  assumes "distinct (map fst bs)"
      and "x \<in> set (prune_backups bs)" and "y \<in> set bs" and "y \<notin> set (prune_backups bs)"
  shows "b_mtime (snd y) \<le> b_mtime (snd x)"
proof -
  let ?ss = "sort_key backup_key bs"
  have split: "set bs = set (take 5 ?ss) \<union> set (drop 5 ?ss)"
    by (metis append_take_drop_id set_append set_sort)
  from assms(3,4) have yn: "fst y \<in> set (drop 5 (ls_t bs))"
    by (auto simp add: prune_backups_def)
  from assms(2) have xn: "fst x \<notin> set (drop 5 (ls_t bs))" and xb: "x \<in> set bs"
    by (auto simp add: prune_backups_def)
  from xn have "x \<notin> set (drop 5 ?ss)"
    by (auto simp add: ls_t_key drop_map)
  with xb split have xt: "x \<in> set (take 5 ?ss)" by blast
  from yn obtain y' where y': "y' \<in> set (drop 5 ?ss)" "fst y' = fst y"
    by (auto simp add: ls_t_key drop_map)
  from y'(1) split have "y' \<in> set bs" by blast
  with assms(1,3) y'(2) have "y' = y"
    by (meson distinct_map inj_onD)
  have "sorted (map backup_key (take 5 ?ss @ drop 5 ?ss))" by simp
  then have "\<forall>a\<in>set (take 5 ?ss). \<forall>b\<in>set (drop 5 ?ss). backup_key a \<le> backup_key b"
    by (simp only: map_append sorted_append) auto
  with xt y'(1) \<open>y' = y\<close> have "backup_key x \<le> backup_key y" by blast
  then show ?thesis
    by (auto simp add: backup_key_def)
qed

lemma ls_t_newest:
  assumes "\<forall>x\<in>set bs. b_mtime (snd x) < b_mtime b"
  shows "ls_t ((tx, b) # bs) = tx # ls_t bs"
proof -
  have "\<forall>y\<in>set (sort_key backup_key bs). backup_key (tx, b) \<le> backup_key y"
    using assms by (auto simp add: backup_key_def)
  then have "insort_key backup_key (tx, b) (sort_key backup_key bs)
               = (tx, b) # sort_key backup_key bs"
    by (rule insort_is_Cons)
  then show ?thesis by (simp add: ls_t_key)
qed

lemma ls_t_length [simp]: "length (ls_t bs) = length bs"
  by (simp add: ls_t_key)

lemma ls_t_set [simp]: "set (ls_t bs) = fst ` set bs"
  by (simp add: ls_t_key)

text \<open>What a deploy that exits with 0 has done to the backup directory.\<close>

lemma deploy_health_phase_backups:
  assumes "exit_of (deploy_health_phase c e w) = 0"
  shows "backups (files_of (deploy_health_phase c e w)) = prune_backups (backups w)"
proof -
  obtain ok tr where h: "(if health_check c then check_health e else (True, [])) = (ok, tr)"
    by (cases "if health_check c then check_health e else (True, [])")
  from assms have ok: "ok"
    by (cases ok) (simp_all add: deploy_health_phase_def h exit_of_def split_beta)
  show ?thesis
    using ok by (simp add: deploy_health_phase_def h files_of_def)
qed

lemma deploy_start_phase_backups:
  assumes "exit_of (deploy_start_phase c e w) = 0"
  shows "backups (files_of (deploy_start_phase c e w)) = prune_backups (backups w)"
proof -
  let ?w1 = "journal_append e (d_tx_id e) A_server_start T_success 1
               ((journal_append e (d_tx_id e) A_server_start T_started 1 w)
                  \<lparr>live_dist := d_start_dist e (live_dist w)\<rparr>)"
  from assms have ok: "d_start_ok e"
    by (cases "d_start_ok e") (simp_all add: deploy_start_phase_def exit_of_def split_beta Let_def)
  with assms have "exit_of (deploy_health_phase c e ?w1) = 0"
    by (simp add: deploy_start_phase_def exit_of_def split_beta Let_def)
  from deploy_health_phase_backups [OF this] ok show ?thesis
    by (simp add: deploy_start_phase_def files_of_def split_beta Let_def)
qed

lemma deploy_build_phase_backups:
  assumes "exit_of (deploy_build_phase c e w) = 0"
  shows "backups (files_of (deploy_build_phase c e w)) = prune_backups (backups w)"
proof (cases "pre_build c")
  case False
  with assms deploy_start_phase_backups [of c e w] show ?thesis
    by (simp add: deploy_build_phase_def)
next
  case True
  let ?w1 = "(journal_append e (d_tx_id e) A_build_complete T_success 1
                (journal_append e (d_tx_id e) A_build_start T_started 1 w))
               \<lparr>live_dist := d_built_dist e\<rparr>"
  from assms True have ok: "d_build_ok e"
    by (cases "d_build_ok e") (simp_all add: deploy_build_phase_def exit_of_def split_beta Let_def)
  with assms True have "exit_of (deploy_start_phase c e ?w1) = 0"
    by (simp add: deploy_build_phase_def exit_of_def split_beta Let_def)
  from deploy_start_phase_backups [OF this] ok True show ?thesis
    by (simp add: deploy_build_phase_def files_of_def split_beta Let_def)
qed

lemma cmd_deploy_success_backups:
  assumes "exit_of (cmd_deploy c e w) = 0"
  shows "backups (files_of (cmd_deploy c e w))
           = prune_backups ((d_tx_id e, \<lparr> b_mtime = d_mtime e, b_dist = live_dist w \<rparr>)
                              # filter (\<lambda>x. fst x \<noteq> d_tx_id e) (backups w))"
proof -
  let ?wb = "deploy_backup_phase e (w\<lparr>deploy_lock := Some (d_self_pid e)\<rparr>)"
  have bp: "backups ?wb
              = (d_tx_id e, \<lparr> b_mtime = d_mtime e, b_dist = live_dist w \<rparr>)
                  # filter (\<lambda>x. fst x \<noteq> d_tx_id e) (backups w)"
    by (simp add: deploy_backup_phase_def create_backup_def Let_def)
  from assms have free: "\<not> deploy_lock_held e w" and dir: "journal_dir w"
    by (auto simp add: cmd_deploy_def exit_of_def split: if_splits)
  with assms have "exit_of (deploy_build_phase c e ?wb) = 0"
    by (simp add: cmd_deploy_def exit_of_def split_beta)
  from deploy_build_phase_backups [OF this] free dir show ?thesis
    by (simp add: cmd_deploy_def files_of_def split_beta bp)
qed

lemma take_append_take: "take n (xs @ take n ys) = take n (xs @ ys)"
  by (simp add: min_def)

lemma deploy_all_backups:
  assumes "deploy_all c es w = Some w'"
      and "distinct (map fst (backups w))"
      and "distinct (map d_tx_id es)"
      and "\<forall>e\<in>set es. d_tx_id e \<notin> fst ` set (backups w)"
      and "sorted_wrt (<) (map d_mtime es)"
      and "\<forall>x\<in>set (backups w). \<forall>e\<in>set es. b_mtime (snd x) < d_mtime e"
  shows "ls_t (backups w')
           = (if es = [] then ls_t (backups w)
              else take 5 (rev (map d_tx_id es) @ ls_t (backups w)))"
  using assms
proof (induction es arbitrary: w)
  case Nil
  then show ?case by simp
next
  case (Cons e es)
  obtain rc w1 tr where r: "cmd_deploy c e w = (rc, w1, tr)" by (cases "cmd_deploy c e w")
  from Cons.prems(1) r have rc: "rc = 0" and rest: "deploy_all c es w1 = Some w'"
    by (auto split: nat.splits)
  define b where "b = \<lparr> b_mtime = d_mtime e, b_dist = live_dist w \<rparr>"
  from Cons.prems(4) have notin: "d_tx_id e \<notin> fst ` set (backups w)" by simp
  have fresh: "filter (\<lambda>x. fst x \<noteq> d_tx_id e) (backups w) = backups w"
  proof (rule filter_True, rule ballI)
    fix x assume "x \<in> set (backups w)"
    then have "fst x \<in> fst ` set (backups w)" by (rule imageI)
    with notin show "fst x \<noteq> d_tx_id e" by metis
  qed
  from cmd_deploy_success_backups [of c e w] r rc fresh
  have b1: "backups w1 = prune_backups ((d_tx_id e, b) # backups w)"
    by (simp add: exit_of_def files_of_def b_def)
  have d0: "distinct (map fst ((d_tx_id e, b) # backups w))"
    using Cons.prems(2) notin by simp
  have newest: "\<forall>x\<in>set (backups w). b_mtime (snd x) < b_mtime b"
    using Cons.prems(6) by (simp add: b_def)
  have l1: "ls_t (backups w1) = take 5 (d_tx_id e # ls_t (backups w))"
    by (simp add: b1 prune_ls_t [OF d0] ls_t_newest [OF newest])
  have sub: "set (backups w1) \<subseteq> insert (d_tx_id e, b) (set (backups w))"
    using prune_subset [of "(d_tx_id e, b) # backups w"] by (simp add: b1)
  have p2: "distinct (map fst (backups w1))"
    using prune_distinct [OF d0] by (simp add: b1)
  have p3: "distinct (map d_tx_id es)" using Cons.prems(3) by simp
  have names1: "fst ` set (backups w1) \<subseteq> insert (d_tx_id e) (fst ` set (backups w))"
    using image_mono [OF sub, of fst] by simp
  have p4: "\<forall>e'\<in>set es. d_tx_id e' \<notin> fst ` set (backups w1)"
  proof (rule ballI)
    fix e' assume e': "e' \<in> set es"
    then have "d_tx_id e' \<in> d_tx_id ` set es" by (rule imageI)
    with Cons.prems(3) have "d_tx_id e' \<noteq> d_tx_id e" by (metis distinct.simps(2) list.simps(9) set_map)
    moreover from e' Cons.prems(4) have "d_tx_id e' \<notin> fst ` set (backups w)" by simp
    ultimately show "d_tx_id e' \<notin> fst ` set (backups w1)" using names1 by blast
  qed
  have p5: "sorted_wrt (<) (map d_mtime es)" using Cons.prems(5) by simp
  have p6: "\<forall>x\<in>set (backups w1). \<forall>e'\<in>set es. b_mtime (snd x) < d_mtime e'"
  proof (intro ballI)
    fix x e' assume x: "x \<in> set (backups w1)" and e': "e' \<in> set es"
    from x sub have "x = (d_tx_id e, b) \<or> x \<in> set (backups w)" by auto
    then show "b_mtime (snd x) < d_mtime e'"
    proof
      assume "x = (d_tx_id e, b)"
      with Cons.prems(5) e' show ?thesis by (auto simp add: b_def)
    next
      assume "x \<in> set (backups w)"
      with Cons.prems(6) e' show ?thesis by simp
    qed
  qed
  note IH = Cons.IH [OF rest p2 p3 p4 p5 p6]
  show ?case
  proof (cases "es = []")
    case True
    with rest l1 show ?thesis by simp
  next
    case False
    with IH have "ls_t (backups w') = take 5 (rev (map d_tx_id es) @ ls_t (backups w1))"
      by simp
    also have "\<dots> = take 5 (rev (map d_tx_id es) @ d_tx_id e # ls_t (backups w))"
      by (simp only: l1 take_append_take)
    finally show ?thesis by simp
  qed
qed

text \<open>
  Claim C8. A deploy that exits with 0 leaves at most five backup directories: the
  directory is the one that held the new backup, pruned. Pruning a directory keeps the
  first five names of \<open>ls -t\<close>, and nothing it removes is newer than anything it keeps.
  After more than five successful deploys in a row, with fresh transaction ids and
  backups made at increasing times later than anything that was in the directory,
  exactly five backups remain, those of the last five transactions.
\<close>

theorem C8_backup_retention:
  "(exit_of (cmd_deploy c e w) = 0 \<longrightarrow>
      length (backups (files_of (cmd_deploy c e w))) \<le> 5
    \<and> backups (files_of (cmd_deploy c e w))
        = prune_backups ((d_tx_id e, \<lparr> b_mtime = d_mtime e, b_dist = live_dist w \<rparr>)
                           # filter (\<lambda>x. fst x \<noteq> d_tx_id e) (backups w)))
   \<and> (distinct (map fst bs) \<longrightarrow>
        ls_t (prune_backups bs) = take 5 (ls_t bs)
      \<and> (\<forall>x\<in>set (prune_backups bs). \<forall>y\<in>set bs - set (prune_backups bs).
            b_mtime (snd y) \<le> b_mtime (snd x)))
   \<and> (deploy_all c es w = Some w' \<and> 5 < length es
      \<and> distinct (map fst (backups w)) \<and> distinct (map d_tx_id es)
      \<and> (\<forall>e\<in>set es. d_tx_id e \<notin> fst ` set (backups w))
      \<and> sorted_wrt (<) (map d_mtime es)
      \<and> (\<forall>x\<in>set (backups w). \<forall>e\<in>set es. b_mtime (snd x) < d_mtime e) \<longrightarrow>
        length (backups w') = 5
      \<and> ls_t (backups w') = take 5 (rev (map d_tx_id es))
      \<and> fst ` set (backups w') = set (drop (length es - 5) (map d_tx_id es)))"
proof (intro conjI impI ballI)
  assume "exit_of (cmd_deploy c e w) = 0"
  from cmd_deploy_success_backups [OF this]
  show "backups (files_of (cmd_deploy c e w))
        = prune_backups ((d_tx_id e, \<lparr> b_mtime = d_mtime e, b_dist = live_dist w \<rparr>)
                           # filter (\<lambda>x. fst x \<noteq> d_tx_id e) (backups w))" .
  then show "length (backups (files_of (cmd_deploy c e w))) \<le> 5"
    by (simp add: prune_length)
next
  assume "distinct (map fst bs)"
  then show "ls_t (prune_backups bs) = take 5 (ls_t bs)" by (rule prune_ls_t)
next
  fix x y
  assume "distinct (map fst bs)" "x \<in> set (prune_backups bs)" "y \<in> set bs - set (prune_backups bs)"
  then show "b_mtime (snd y) \<le> b_mtime (snd x)"
    using prune_removes_older [of bs x y] by simp
next
  assume a: "deploy_all c es w = Some w' \<and> 5 < length es
      \<and> distinct (map fst (backups w)) \<and> distinct (map d_tx_id es)
      \<and> (\<forall>e\<in>set es. d_tx_id e \<notin> fst ` set (backups w))
      \<and> sorted_wrt (<) (map d_mtime es)
      \<and> (\<forall>x\<in>set (backups w). \<forall>e\<in>set es. b_mtime (snd x) < d_mtime e)"
  then have ne: "es \<noteq> []" by auto
  from a have a1: "deploy_all c es w = Some w'" and a2: "distinct (map fst (backups w))"
    and a3: "distinct (map d_tx_id es)"
    and a4: "\<forall>e\<in>set es. d_tx_id e \<notin> fst ` set (backups w)"
    and a5: "sorted_wrt (<) (map d_mtime es)"
    and a6: "\<forall>x\<in>set (backups w). \<forall>e\<in>set es. b_mtime (snd x) < d_mtime e"
    by simp_all
  have "ls_t (backups w')
           = (if es = [] then ls_t (backups w)
              else take 5 (rev (map d_tx_id es) @ ls_t (backups w)))"
    by (rule deploy_all_backups [OF a1 a2 a3 a4 a5 a6])
  with ne a show l: "ls_t (backups w') = take 5 (rev (map d_tx_id es))" by simp
  from a have "length (take 5 (rev (map d_tx_id es))) = 5" by simp
  with l have "length (ls_t (backups w')) = 5" by simp
  then show "length (backups w') = 5" by simp
  have "fst ` set (backups w') = set (ls_t (backups w'))" by simp
  also have "\<dots> = set (take 5 (rev (map d_tx_id es)))" by (simp only: l)
  also have "take 5 (rev (map d_tx_id es)) = rev (drop (length es - 5) (map d_tx_id es))"
    by (simp add: take_rev)
  finally show "fst ` set (backups w') = set (drop (length es - 5) (map d_tx_id es))"
    by simp
qed

lemma six_deploys_concrete:
  "map_option backups (deploy_all quick_deploy six_envs fresh_world)
     = Some [(''tx-6'', \<lparr>b_mtime = 1006, b_dist = Some 2\<rparr>),
             (''tx-5'', \<lparr>b_mtime = 1005, b_dist = Some 2\<rparr>),
             (''tx-4'', \<lparr>b_mtime = 1004, b_dist = Some 2\<rparr>),
             (''tx-3'', \<lparr>b_mtime = 1003, b_dist = Some 2\<rparr>),
             (''tx-2'', \<lparr>b_mtime = 1002, b_dist = Some 2\<rparr>)]"
  by code_simp

lemma first_deploy_concrete:
  "exit_of (cmd_deploy quick_deploy (env_n ''tx-1'' 1001) fresh_world) = 0"
  by code_simp

lemma six_backups_pruned:
  "prune_backups six_backups
     = [(''tx-3'', \<lparr> b_mtime = 1003, b_dist = Some 1 \<rparr>),
        (''tx-6'', \<lparr> b_mtime = 1006, b_dist = Some 1 \<rparr>),
        (''tx-5'', \<lparr> b_mtime = 1005, b_dist = Some 1 \<rparr>),
        (''tx-2'', \<lparr> b_mtime = 1002, b_dist = Some 1 \<rparr>),
        (''tx-4'', \<lparr> b_mtime = 1004, b_dist = Some 1 \<rparr>)]"
  by code_simp

theorem C8_backup_retention_witness:
  "exit_of (cmd_deploy quick_deploy (env_n ''tx-1'' 1001) fresh_world) = 0
   \<and> length (backups (files_of (cmd_deploy quick_deploy (env_n ''tx-1'' 1001) fresh_world))) \<le> 5
   \<and> distinct (map fst six_backups)
   \<and> ls_t (prune_backups six_backups) = take 5 (ls_t six_backups)
   \<and> ls_t (prune_backups six_backups) = [''tx-6'', ''tx-5'', ''tx-4'', ''tx-3'', ''tx-2'']
   \<and> 5 < length six_envs
   \<and> distinct (map fst (backups fresh_world)) \<and> distinct (map d_tx_id six_envs)
   \<and> sorted_wrt (<) (map d_mtime six_envs)
   \<and> map_option (\<lambda>w. length (backups w)) (deploy_all quick_deploy six_envs fresh_world) = Some 5
   \<and> map_option (\<lambda>w. ls_t (backups w)) (deploy_all quick_deploy six_envs fresh_world)
       = Some [''tx-6'', ''tx-5'', ''tx-4'', ''tx-3'', ''tx-2'']"
proof -
  obtain w' where run: "deploy_all quick_deploy six_envs fresh_world = Some w'"
    using six_deploys_concrete by (cases "deploy_all quick_deploy six_envs fresh_world") auto
  have h1: "exit_of (cmd_deploy quick_deploy (env_n ''tx-1'' 1001) fresh_world) = 0"
    by (rule first_deploy_concrete)
  have h2: "distinct (map fst six_backups)" by (simp add: six_backups_def)
  have h3: "5 < length six_envs" by (simp add: six_envs_def)
  have h4: "distinct (map fst (backups fresh_world))" by (simp add: fresh_world_def)
  have h5: "distinct (map d_tx_id six_envs)" by (simp add: six_envs_def env_n_def)
  have h6: "\<forall>e\<in>set six_envs. d_tx_id e \<notin> fst ` set (backups fresh_world)"
    by (simp add: fresh_world_def)
  have h7: "sorted_wrt (<) (map d_mtime six_envs)" by (simp add: six_envs_def env_n_def)
  have h8: "\<forall>x\<in>set (backups fresh_world). \<forall>e\<in>set six_envs. b_mtime (snd x) < d_mtime e"
    by (simp add: fresh_world_def)
  note t = C8_backup_retention
             [of quick_deploy "env_n ''tx-1'' 1001" fresh_world six_backups six_envs w']
  from t h1 have a: "length (backups (files_of (cmd_deploy quick_deploy (env_n ''tx-1'' 1001) fresh_world))) \<le> 5"
    by blast
  from t h2 have b: "ls_t (prune_backups six_backups) = take 5 (ls_t six_backups)"
    by blast
  from t run h3 h4 h5 h6 h7 h8
  have c: "length (backups w') = 5 \<and> ls_t (backups w') = take 5 (rev (map d_tx_id six_envs))"
    by blast
  have d: "take 5 (rev (map d_tx_id six_envs)) = [''tx-6'', ''tx-5'', ''tx-4'', ''tx-3'', ''tx-2'']"
    by (simp add: six_envs_def env_n_def)
  have e: "ls_t (prune_backups six_backups) = [''tx-6'', ''tx-5'', ''tx-4'', ''tx-3'', ''tx-2'']"
    by (simp only: six_backups_pruned) code_simp
  from h1 a h2 b e h3 h4 h5 h7 c d show ?thesis
    by (simp add: run)
qed

subsection \<open>rollback.sh\<close>




end
